theory Spec2Isabelle
  imports Complex_Main
begin

section \<open>Asynchronous methods as world-passing computations\<close>

text \<open>
  Every method of a manager or an adapter is an \<^verbatim>\<open>async\<close> function that is awaited by its
  caller at once, so the calls of one manager operation run in sequence. Such a method is
  modelled as a function of the world it runs in (external processes, the file system, the
  private fields of the adapter objects), returning either the rejection of its promise
  (\<open>Inl\<close>) or its value (\<open>Inr\<close>), and the world it leaves behind.

  A rejection carries the value that was thrown, which the handlers take as
  \<^verbatim>\<open>error: any\<close>; what they do with it is to read \<^verbatim>\<open>error.message\<close>. \<open>Error m\<close> is an
  \<^verbatim>\<open>Error\<close> object, or any other value whose property \<^verbatim>\<open>message\<close> is the string \<open>m\<close>;
  \<open>ThrownOther\<close> is a value other than \<^verbatim>\<open>null\<close> and \<^verbatim>\<open>undefined\<close> without that property (a
  string, a number, a plain object); \<open>ThrownNull\<close> and \<open>ThrownUndefined\<close> are the two values
  that have no properties. (A value whose \<^verbatim>\<open>message\<close> is no string is outside the model.)
\<close>

datatype js_error = Error string | ThrownOther | ThrownNull | ThrownUndefined

type_synonym ('a, 'w) io = "'w \<Rightarrow> (js_error + 'a) \<times> 'w"

definition io_return :: "'a \<Rightarrow> ('a, 'w) io" where
  "io_return x = (\<lambda>w. (Inr x, w))"

definition io_throw :: "js_error \<Rightarrow> ('a, 'w) io" where
  "io_throw e = (\<lambda>w. (Inl e, w))"

text \<open>\<^verbatim>\<open>const x = await m; f(x)\<close>: a rejection of \<open>m\<close> leaves the function.\<close>

definition io_bind :: "('a, 'w) io \<Rightarrow> ('a \<Rightarrow> ('b, 'w) io) \<Rightarrow> ('b, 'w) io" where
  "io_bind m f = (\<lambda>w. case m w of (Inl e, w') \<Rightarrow> (Inl e, w') | (Inr x, w') \<Rightarrow> f x w')"

text \<open>\<^verbatim>\<open>try { m } catch (error) { h(error) }\<close>.\<close>

definition io_catch :: "('a, 'w) io \<Rightarrow> (js_error \<Rightarrow> ('a, 'w) io) \<Rightarrow> ('a, 'w) io" where
  "io_catch m h = (\<lambda>w. case m w of (Inl e, w') \<Rightarrow> h e w' | (Inr x, w') \<Rightarrow> (Inr x, w'))"

text \<open>
  The expression \<^verbatim>\<open>error.message\<close>. On a value that has properties it gives the property,
  \<^verbatim>\<open>undefined\<close> when there is none. On \<^verbatim>\<open>null\<close> and \<^verbatim>\<open>undefined\<close> the read itself throws a
  \<^verbatim>\<open>TypeError\<close>, an \<^verbatim>\<open>Error\<close> object whose message is worded by the engine (here as Node
  words it).
\<close>

fun message_property :: "js_error \<Rightarrow> string option" where
  "message_property (Error m) = Some m"
| "message_property e = None"

definition type_error_reading_message :: "string \<Rightarrow> js_error" where
  "type_error_reading_message v =
     Error (''Cannot read properties of '' @ v @ '' (reading '' @ [CHR 0x27] @ ''message'' @
            [CHR 0x27] @ '')'')"

definition read_message :: "js_error \<Rightarrow> (string option, 'w) io" where
  "read_message error =
     (if error = ThrownNull then io_throw (type_error_reading_message ''null'')
      else if error = ThrownUndefined then io_throw (type_error_reading_message ''undefined'')
      else io_return (message_property error))"


section \<open>Result types (types.ts)\<close>

text \<open>
  An optional field \<^verbatim>\<open>f?: T\<close> is a \<open>T option\<close>, \<open>None\<close> when the object has no such field.
  \<^verbatim>\<open>exitCode\<close> is declared a number, but the adapters store \<^verbatim>\<open>error.code\<close> of a failed
  \<^verbatim>\<open>exec\<close> there, which is a number (the exit status) or a string (such as \<^verbatim>\<open>ENOENT\<close>).
\<close>

datatype js_code = CodeNum int | CodeStr string

record ToolResult =
  success :: bool
  stdout :: "string option"
  stderr :: "string option"
  exitCode :: "js_code option"
  errors :: "string list option"

datatype severity = SevError | SevWarning | SevInfo

text \<open>
  \<^verbatim>\<open>LintWarning\<close> and \<^verbatim>\<open>LintError\<close> have the same fields and differ in the values their
  \<^verbatim>\<open>severity\<close> may take; one record serves both. Line and column come out of
  \<^verbatim>\<open>parseInt\<close> on a string of decimal digits and are natural numbers here. The field
  \<^verbatim>\<open>file\<close> is \<open>filename\<close>.
\<close>

record Diagnostic =
  filename :: string
  line :: nat
  column :: "nat option"
  code :: string
  message :: string
  severity :: severity

record LintResult = ToolResult +
  warnings :: "Diagnostic list"
  lintErrors :: "Diagnostic list"

record CoverageResult =
  cov_line :: real
  cov_toggle :: real
  cov_fsm :: real
  cov_functional :: "real option"

record SimulationResult = ToolResult +
  passed :: bool
  coverage :: "CoverageResult option"
  waveform :: "string option"

record CompileResult = ToolResult +
  executable :: "string option"

record TimingResult =
  criticalPath_start :: string
  criticalPath_end :: string
  criticalPath_delay :: real
  slack :: real
  frequency :: real

record PPAResult =
  area_cells :: real
  area_area :: real
  power_dynamic :: real
  power_static :: real
  power_total :: real
  performance_frequency :: real

record SynthesisResult = ToolResult +
  netlist :: "string option"
  timing :: "TimingResult option"
  ppa :: "PPAResult option"


section \<open>Tool interfaces (tools/types.ts)\<close>

text \<open>
  An adapter object is the record of its methods. Only the methods the managers call are
  kept: \<^verbatim>\<open>run\<close> and \<^verbatim>\<open>getVersion\<close> of \<^verbatim>\<open>ToolRunner\<close> are never called by a manager.
  \<^verbatim>\<open>collectCoverage\<close> is an optional method.
\<close>

record 'w LintTool =
  lint_isInstalled :: "(bool, 'w) io"
  lint_lint :: "string list \<Rightarrow> (LintResult, 'w) io"

record 'w SimulationTool =
  sim_isInstalled :: "(bool, 'w) io"
  sim_compile :: "string list \<Rightarrow> (CompileResult, 'w) io"
  sim_simulate :: "string \<Rightarrow> string list option \<Rightarrow> (SimulationResult, 'w) io"
  sim_collectCoverage :: "(CoverageResult, 'w) io option"

record 'w SynthesisTool =
  syn_isInstalled :: "(bool, 'w) io"
  syn_synthesize :: "string list \<Rightarrow> string \<Rightarrow> (SynthesisResult, 'w) io"
  syn_analyzeTiming :: "string \<Rightarrow> (TimingResult, 'w) io"
  syn_estimatePPA :: "string \<Rightarrow> (PPAResult, 'w) io"


section \<open>The category managers: registry and selection\<close>

text \<open>
  The three manager classes hold the same two fields: \<^verbatim>\<open>tools\<close>, a JavaScript \<^verbatim>\<open>Map\<close>
  (its entries are iterated in the order in which their keys were first inserted), modelled
  as an association list in that order, and the optional \<^verbatim>\<open>preferredTool\<close>.
\<close>

record 't ToolManager =
  tools :: "(string \<times> 't) list"
  preferredTool :: "string option"

definition newManager :: "'t ToolManager" where
  "newManager = \<lparr>tools = [], preferredTool = None\<rparr>"

text \<open>\<^verbatim>\<open>Map.prototype.set\<close>: a present key keeps its place and takes the new value.\<close>

fun map_set :: "string \<Rightarrow> 't \<Rightarrow> (string \<times> 't) list \<Rightarrow> (string \<times> 't) list" where
  "map_set k v [] = [(k, v)]"
| "map_set k v ((k', v') # rest) =
     (if k' = k then (k, v) # rest else (k', v') # map_set k v rest)"

definition map_has :: "(string \<times> 't) list \<Rightarrow> string \<Rightarrow> bool" where
  "map_has m k = (map_of m k \<noteq> None)"

definition register :: "string \<Rightarrow> 't \<Rightarrow> 't ToolManager \<Rightarrow> 't ToolManager" where
  "register name tool m = m\<lparr>tools := map_set name tool (tools m)\<rparr>"

text \<open>
  \<^verbatim>\<open>setPreferred\<close> throws for a name that is not registered. The prefix of the message
  names the category (\<^verbatim>\<open>Lint\<close>, \<^verbatim>\<open>Simulation\<close>, \<^verbatim>\<open>Synthesis\<close>).
\<close>

definition setPreferred :: "string \<Rightarrow> string \<Rightarrow> 't ToolManager \<Rightarrow> js_error + 't ToolManager" where
  "setPreferred category name m =
     (if \<not> map_has (tools m) name
      then Inl (Error (category @ '' tool '' @ [CHR 0x27] @ name @ [CHR 0x27] @ '' not registered''))
      else Inr (m\<lparr>preferredTool := Some name\<rparr>))"

text \<open>
  The first two blocks of \<^verbatim>\<open>selectTool\<close> have one shape,
  \<^verbatim>\<open>if (name && this.tools.has(name)) { const tool = this.tools.get(name)!;
       if (await tool.isInstalled()) { return tool; } }\<close>
  with the argument and then the field for \<^verbatim>\<open>name\<close>. \<open>selectNamed\<close> is that block; its
  value \<open>Some tool\<close> stands for the \<^verbatim>\<open>return\<close>, \<open>None\<close> for falling out of the block.
  The test \<^verbatim>\<open>name &&\<close> is false for \<^verbatim>\<open>undefined\<close> and for the empty string.
\<close>

definition selectNamed ::
  "('t \<Rightarrow> (bool, 'w) io) \<Rightarrow> (string \<times> 't) list \<Rightarrow> string option \<Rightarrow> ('t option, 'w) io" where
  "selectNamed probe m name =
     (case name of
        None \<Rightarrow> io_return None
      | Some n \<Rightarrow>
          (if n \<noteq> [] \<and> map_has m n
           then (case map_of m n of
                   None \<Rightarrow> io_return None
                 | Some tool \<Rightarrow>
                     io_bind (probe tool) (\<lambda>inst. io_return (if inst then Some tool else None)))
           else io_return None))"

text \<open>
  The third block,
  \<^verbatim>\<open>for (const [name, tool] of this.tools) { if (await tool.isInstalled()) return tool; }\<close>
  followed by \<^verbatim>\<open>return null\<close>.
\<close>

fun selectFirstInstalled ::
  "('t \<Rightarrow> (bool, 'w) io) \<Rightarrow> (string \<times> 't) list \<Rightarrow> ('t option, 'w) io" where
  "selectFirstInstalled probe [] w = (Inr None, w)"
| "selectFirstInstalled probe ((name, tool) # rest) w =
     (case probe tool w of
        (Inl e, w') \<Rightarrow> (Inl e, w')
      | (Inr inst, w') \<Rightarrow>
          (if inst then (Inr (Some tool), w') else selectFirstInstalled probe rest w'))"

text \<open>
  \<^verbatim>\<open>selectTool(preferred?)\<close>, the same text in the three managers but for the tool type;
  \<open>probe\<close> is the \<^verbatim>\<open>isInstalled\<close> method of that type.
\<close>

definition selectTool ::
  "('t \<Rightarrow> (bool, 'w) io) \<Rightarrow> 't ToolManager \<Rightarrow> string option \<Rightarrow> ('t option, 'w) io" where
  "selectTool probe m preferred =
     io_bind (selectNamed probe (tools m) preferred) (\<lambda>r1.
       case r1 of
         Some tool \<Rightarrow> io_return (Some tool)
       | None \<Rightarrow>
           io_bind (selectNamed probe (tools m) (preferredTool m)) (\<lambda>r2.
             case r2 of
               Some tool \<Rightarrow> io_return (Some tool)
             | None \<Rightarrow> selectFirstInstalled probe (tools m)))"

definition LintManager_selectTool ::
  "'w LintTool ToolManager \<Rightarrow> string option \<Rightarrow> ('w LintTool option, 'w) io" where
  "LintManager_selectTool = selectTool lint_isInstalled"

definition SimulationManager_selectTool ::
  "'w SimulationTool ToolManager \<Rightarrow> string option \<Rightarrow> ('w SimulationTool option, 'w) io" where
  "SimulationManager_selectTool = selectTool sim_isInstalled"

definition SynthesisManager_selectTool ::
  "'w SynthesisTool ToolManager \<Rightarrow> string option \<Rightarrow> ('w SynthesisTool option, 'w) io" where
  "SynthesisManager_selectTool = selectTool syn_isInstalled"


section \<open>Strings and regular expressions of the JavaScript library\<close>

text \<open>
  A string is a list of characters; the characters of this model are the code units below
  256. The functions of this section are those of the JavaScript library that the adapters
  call, restricted to the constructs that occur in their patterns.
\<close>

definition is_space :: "char \<Rightarrow> bool" where
  "is_space c = (c \<in> set [CHR 0x09, CHR 0x0A, CHR 0x0B, CHR 0x0C, CHR 0x0D, CHR 0x20, CHR 0xA0])"

definition is_digit :: "char \<Rightarrow> bool" where
  "is_digit c = (c \<in> set ''0123456789'')"

definition is_word :: "char \<Rightarrow> bool" where
  "is_word c =
     (c \<in> set ''abcdefghijklmnopqrstuvwxyzABCDEFGHIJKLMNOPQRSTUVWXYZ0123456789_'')"

text \<open>
  \<^verbatim>\<open>toLowerCase\<close> on the ASCII letters. (On other characters the library function may
  differ; it maps none of them to \<^verbatim>\<open>e\<close>, \<^verbatim>\<open>r\<close> or \<^verbatim>\<open>o\<close>, the letters looked for below,
  and the case-insensitive flag of a pattern equates an ASCII letter with its ASCII
  counterpart only.)
\<close>

definition lower_char :: "char \<Rightarrow> char" where
  "lower_char c =
     (case map_of (zip ''ABCDEFGHIJKLMNOPQRSTUVWXYZ'' ''abcdefghijklmnopqrstuvwxyz'') c of
        Some l \<Rightarrow> l
      | None \<Rightarrow> c)"

definition toLowerCase :: "string \<Rightarrow> string" where
  "toLowerCase s = map lower_char s"

text \<open>\<^verbatim>\<open>s.trim()\<close>, \<^verbatim>\<open>xs.join(sep)\<close>, \<^verbatim>\<open>s.includes(t)\<close>, \<^verbatim>\<open>s.split('\n')\<close>.\<close>

definition trim :: "string \<Rightarrow> string" where
  "trim s = rev (dropWhile is_space (rev (dropWhile is_space s)))"

fun join :: "string \<Rightarrow> string list \<Rightarrow> string" where
  "join sep [] = []"
| "join sep [x] = x"
| "join sep (x # y # ys) = x @ sep @ join sep (y # ys)"

definition starts_with :: "string \<Rightarrow> string \<Rightarrow> bool" where
  "starts_with s t = (take (length t) s = t)"

fun string_includes :: "string \<Rightarrow> string \<Rightarrow> bool" where
  "string_includes [] t = (t = [])"
| "string_includes (c # cs) t = (starts_with (c # cs) t \<or> string_includes cs t)"

fun split_lines :: "string \<Rightarrow> string list" where
  "split_lines [] = [[]]"
| "split_lines (c # cs) =
     (if c = CHR 0x0A then [] # split_lines cs
      else (case split_lines cs of [] \<Rightarrow> [[c]] | l # ls \<Rightarrow> (c # l) # ls))"

text \<open>
  \<^verbatim>\<open>parseInt(s, 10)\<close> on a string of decimal digits, as the patterns capture them. The
  library rounds to a double; the value here is exact, as the library's is below \<open>2\<^sup>5\<^sup>3\<close>.
\<close>

definition digit_value :: "char \<Rightarrow> nat" where
  "digit_value c = length (takeWhile (\<lambda>d. d \<noteq> c) ''0123456789'')"

definition parseInt :: "string \<Rightarrow> nat" where
  "parseInt s = foldl (\<lambda>n c. 10 * n + digit_value c) 0 s"

text \<open>\<^verbatim>\<open>x || ''\<close> for an optional string \<open>x\<close>.\<close>

definition or_empty :: "string option \<Rightarrow> string" where
  "or_empty x = (case x of None \<Rightarrow> [] | Some s \<Rightarrow> s)"

text \<open>
  Patterns. A character class is \<^verbatim>\<open>.\<close> (any character but a line terminator), \<^verbatim>\<open>\d\<close>,
  \<^verbatim>\<open>\w\<close>, \<^verbatim>\<open>\s\<close>, a literal character, or a literal character under the flag \<^verbatim>\<open>i\<close>.
  Quantifiers occur in the adapters' patterns on character classes only: \<^verbatim>\<open>c+\<close> (greedy)
  and \<^verbatim>\<open>c+?\<close> (lazy). \<open>Group n r\<close> is the \<open>n\<close>-th capturing group.
\<close>

datatype cclass = AnyChar | DigitC | WordC | SpaceC | Lit char | LitCI char

datatype regex =
    Eps
  | Chr cclass
  | PlusGreedy cclass
  | PlusLazy cclass
  | Seq regex regex
  | Alt regex regex
  | Group nat regex
  | Bol
  | Eol

fun class_mem :: "cclass \<Rightarrow> char \<Rightarrow> bool" where
  "class_mem AnyChar c = (c \<noteq> CHR 0x0A \<and> c \<noteq> CHR 0x0D)"
| "class_mem DigitC c = is_digit c"
| "class_mem WordC c = is_word c"
| "class_mem SpaceC c = is_space c"
| "class_mem (Lit l) c = (c = l)"
| "class_mem (LitCI l) c = (lower_char c = lower_char l)"

text \<open>
  The matcher of the library backtracks: it explores the ways a pattern can match from a
  position in a fixed order of preference and answers with the first that succeeds.
  \<open>rx_match inp r (rest, caps)\<close> lists, in that order, every way \<open>r\<close> can match a prefix of
  \<open>rest\<close> (a suffix of the input \<open>inp\<close>): what is left of the input after it and the
  captures so far. A greedy quantifier prefers the longest run, a lazy one the shortest; an
  alternative prefers its left branch.
\<close>

type_synonym mstate = "string \<times> (nat \<times> string) list"

fun rx_match :: "string \<Rightarrow> regex \<Rightarrow> mstate \<Rightarrow> mstate list" where
  "rx_match inp Eps st = [st]"
| "rx_match inp (Chr c) (rest, caps) =
     (case rest of
        [] \<Rightarrow> []
      | x # xs \<Rightarrow> if class_mem c x then [(xs, caps)] else [])"
| "rx_match inp (PlusGreedy c) (rest, caps) =
     map (\<lambda>k. (drop k rest, caps)) (rev [1 ..< Suc (length (takeWhile (class_mem c) rest))])"
| "rx_match inp (PlusLazy c) (rest, caps) =
     map (\<lambda>k. (drop k rest, caps)) [1 ..< Suc (length (takeWhile (class_mem c) rest))]"
| "rx_match inp (Seq a b) st = concat (map (rx_match inp b) (rx_match inp a st))"
| "rx_match inp (Alt a b) st = rx_match inp a st @ rx_match inp b st"
| "rx_match inp (Group n r) (rest, caps) =
     map (\<lambda>(rest', caps'). (rest', (n, take (length rest - length rest') rest) # caps'))
       (rx_match inp r (rest, caps))"
| "rx_match inp Bol (rest, caps) = (if length rest = length inp then [(rest, caps)] else [])"
| "rx_match inp Eol (rest, caps) = (if rest = [] then [(rest, caps)] else [])"

text \<open>
  \<^verbatim>\<open>RegExp.prototype.exec\<close> without the flag \<^verbatim>\<open>g\<close>: the start positions are tried from
  the left, each with no captures; the answer is the captures of the first match, or
  \<open>None\<close> for \<^verbatim>\<open>null\<close>. \<^verbatim>\<open>line.match(r)\<close> is \<open>rx_exec r line\<close>, and \<^verbatim>\<open>r.test(s)\<close> tells
  whether there is a match.
\<close>

fun rx_exec_from :: "string \<Rightarrow> regex \<Rightarrow> string \<Rightarrow> (nat \<times> string) list option" where
  "rx_exec_from inp r [] =
     (case rx_match inp r ([], []) of [] \<Rightarrow> None | (rest, caps) # _ \<Rightarrow> Some caps)"
| "rx_exec_from inp r (x # xs) =
     (case rx_match inp r (x # xs, []) of
        [] \<Rightarrow> rx_exec_from inp r xs
      | (rest, caps) # _ \<Rightarrow> Some caps)"

definition rx_exec :: "regex \<Rightarrow> string \<Rightarrow> (nat \<times> string) list option" where
  "rx_exec r inp = rx_exec_from inp r inp"

definition rx_test :: "regex \<Rightarrow> string \<Rightarrow> bool" where
  "rx_test r inp = (rx_exec r inp \<noteq> None)"

text \<open>
  The text of a group of a match. Every group of the adapters' patterns takes part in
  every match of its pattern, so the default is never read.
\<close>

definition group :: "(nat \<times> string) list \<Rightarrow> nat \<Rightarrow> string" where
  "group caps n = (case map_of caps n of None \<Rightarrow> [] | Some s \<Rightarrow> s)"

text \<open>Pattern notation: a sequence of patterns, a literal text, a literal text under \<^verbatim>\<open>i\<close>.\<close>

definition seqs :: "regex list \<Rightarrow> regex" where
  "seqs rs = foldr Seq rs Eps"

definition lit :: "string \<Rightarrow> regex" where
  "lit s = seqs (map (\<lambda>c. Chr (Lit c)) s)"

definition lit_ci :: "string \<Rightarrow> regex" where
  "lit_ci s = seqs (map (\<lambda>c. Chr (LitCI c)) s)"


section \<open>Running an external command\<close>

text \<open>
  \<^verbatim>\<open>execAsync(cmd, options)\<close> resolves with the two output streams of the process or
  rejects with an error object that carries what was captured of them, the exit code and
  a message. What the process does is not the program's: the adapter functions take the
  outcome of the commands they run as a parameter \<open>exec\<close>, from the command line to its outcome
  at the time of the call. The options (environment, timeout) are part of that outcome.
\<close>

record exec_error =
  error_stdout :: "string option"
  error_stderr :: "string option"
  error_code :: "js_code option"
  error_text :: string

datatype exec_outcome = Resolved string string | Rejected exec_error

record ToolInput =
  input_files :: "string list"
  input_args :: "string list option"

text \<open>\<^verbatim>\<open>error.code || 1\<close> and \<^verbatim>\<open>error.stderr || error.message\<close>.\<close>

definition code_or_1 :: "js_code option \<Rightarrow> js_code" where
  "code_or_1 c =
     (case c of
        None \<Rightarrow> CodeNum 1
      | Some (CodeNum n) \<Rightarrow> if n = 0 then CodeNum 1 else CodeNum n
      | Some (CodeStr t) \<Rightarrow> if t = [] then CodeNum 1 else CodeStr t)"

definition stderr_or_message :: "exec_error \<Rightarrow> string" where
  "stderr_or_message e =
     (case error_stderr e of
        None \<Rightarrow> error_text e
      | Some t \<Rightarrow> if t = [] then error_text e else t)"

definition args_or_empty :: "string list option \<Rightarrow> string list" where
  "args_or_empty a = (case a of None \<Rightarrow> [] | Some xs \<Rightarrow> xs)"


section \<open>Lint adapters\<close>

subsection \<open>VerilatorLint (tools/lint/verilator.ts)\<close>

definition VerilatorLint_run :: "(string \<Rightarrow> exec_outcome) \<Rightarrow> ToolInput \<Rightarrow> ToolResult" where
  "VerilatorLint_run exec input =
     (let cmd = ''verilator '' @
            join '' '' ([''--lint-only''] @ args_or_empty (input_args input) @ input_files input)
      in case exec cmd of
           Resolved out err \<Rightarrow>
             \<lparr>success = True, stdout = Some out, stderr = Some err,
              exitCode = Some (CodeNum 0), errors = None\<rparr>
         | Rejected e \<Rightarrow>
             \<lparr>success = False, stdout = Some (or_empty (error_stdout e)),
              stderr = Some (or_empty (error_stderr e)),
              exitCode = Some (code_or_1 (error_code e)), errors = Some [error_text e]\<rparr>)"

text \<open>\<^verbatim>\<open>/^%(Warning|Error)-(\w+):\s+(.+?):(\d+):(\d+):\s+(.+)$/\<close>\<close>

definition VerilatorLint_pattern :: regex where
  "VerilatorLint_pattern = seqs
     [Bol, lit ''%'', Group 1 (Alt (lit ''Warning'') (lit ''Error'')), lit ''-'',
      Group 2 (PlusGreedy WordC), lit '':'', PlusGreedy SpaceC, Group 3 (PlusLazy AnyChar),
      lit '':'', Group 4 (PlusGreedy DigitC), lit '':'', Group 5 (PlusGreedy DigitC),
      lit '':'', PlusGreedy SpaceC, Group 6 (PlusGreedy AnyChar), Eol]"

text \<open>
  The body of the loop over the lines, on the two arrays \<^verbatim>\<open>warnings\<close> and \<^verbatim>\<open>errors\<close>;
  \<^verbatim>\<open>push\<close> appends.
\<close>

definition VerilatorLint_parseLine ::
  "string \<Rightarrow> Diagnostic list \<times> Diagnostic list \<Rightarrow> Diagnostic list \<times> Diagnostic list" where
  "VerilatorLint_parseLine row acc =
     (case rx_exec VerilatorLint_pattern row of
        None \<Rightarrow> acc
      | Some m \<Rightarrow>
          (let lineNum = parseInt (group m 4); col = parseInt (group m 5)
           in if group m 1 = ''Warning''
              then (fst acc @
                      [\<lparr>filename = group m 3, line = lineNum, column = Some col,
                        code = group m 2, message = trim (group m 6), severity = SevWarning\<rparr>],
                    snd acc)
              else (fst acc,
                    snd acc @
                      [\<lparr>filename = group m 3, line = lineNum, column = Some col,
                        code = group m 2, message = trim (group m 6), severity = SevError\<rparr>])))"

definition VerilatorLint_parseLintOutput :: "ToolResult \<Rightarrow> LintResult" where
  "VerilatorLint_parseLintOutput result =
     (let output = or_empty (stdout result) @ or_empty (stderr result);
          acc = foldl (\<lambda>a row. VerilatorLint_parseLine row a) ([], []) (split_lines output)
      in \<lparr>success = (length (snd acc) = 0), stdout = stdout result, stderr = stderr result,
          exitCode = None, errors = None, warnings = fst acc, lintErrors = snd acc\<rparr>)"

definition VerilatorLint_lint :: "(string \<Rightarrow> exec_outcome) \<Rightarrow> string list \<Rightarrow> LintResult" where
  "VerilatorLint_lint exec fs =
     VerilatorLint_parseLintOutput
       (VerilatorLint_run exec
          \<lparr>input_files = fs, input_args = Some [''--lint-only'', ''--Wall'']\<rparr>)"

subsection \<open>SlangLint (tools/lint/slang.ts)\<close>

definition SlangLint_run :: "(string \<Rightarrow> exec_outcome) \<Rightarrow> ToolInput \<Rightarrow> ToolResult" where
  "SlangLint_run exec input =
     (let cmd = ''slang '' @
            join '' '' ([''--lint''] @ args_or_empty (input_args input) @ input_files input)
      in case exec cmd of
           Resolved out err \<Rightarrow>
             \<lparr>success = True, stdout = Some out, stderr = Some err,
              exitCode = Some (CodeNum 0), errors = None\<rparr>
         | Rejected e \<Rightarrow>
             \<lparr>success = False, stdout = Some (or_empty (error_stdout e)),
              stderr = Some (or_empty (error_stderr e)),
              exitCode = Some (code_or_1 (error_code e)),
              errors = Some (if or_empty (error_stderr e) \<noteq> []
                             then [or_empty (error_stderr e)] else [])\<rparr>)"

text \<open>\<^verbatim>\<open>/^(.+?):(\d+):(\d+):\s+(error|warning|note):\s+(.+)$/\<close>\<close>

definition SlangLint_pattern :: regex where
  "SlangLint_pattern = seqs
     [Bol, Group 1 (PlusLazy AnyChar), lit '':'', Group 2 (PlusGreedy DigitC), lit '':'',
      Group 3 (PlusGreedy DigitC), lit '':'', PlusGreedy SpaceC,
      Group 4 (Alt (lit ''error'') (Alt (lit ''warning'') (lit ''note''))), lit '':'',
      PlusGreedy SpaceC, Group 5 (PlusGreedy AnyChar), Eol]"

definition SlangLint_parseLine ::
  "string \<Rightarrow> Diagnostic list \<times> Diagnostic list \<Rightarrow> Diagnostic list \<times> Diagnostic list" where
  "SlangLint_parseLine row acc =
     (case rx_exec SlangLint_pattern row of
        None \<Rightarrow> acc
      | Some m \<Rightarrow>
          (let lineNum = parseInt (group m 2); col = parseInt (group m 3)
           in if group m 4 = ''error''
              then (fst acc,
                    snd acc @
                      [\<lparr>filename = group m 1, line = lineNum, column = Some col,
                        code = ''slang'', message = trim (group m 5), severity = SevError\<rparr>])
              else (fst acc @
                      [\<lparr>filename = group m 1, line = lineNum, column = Some col,
                        code = ''slang'', message = trim (group m 5),
                        severity = (if group m 4 = ''warning'' then SevWarning else SevInfo)\<rparr>],
                    snd acc)))"

definition SlangLint_parseLintOutput :: "ToolResult \<Rightarrow> LintResult" where
  "SlangLint_parseLintOutput result =
     (let output = or_empty (stdout result) @ or_empty (stderr result);
          acc = foldl (\<lambda>a row. SlangLint_parseLine row a) ([], []) (split_lines output)
      in \<lparr>success = (length (snd acc) = 0), stdout = stdout result, stderr = stderr result,
          exitCode = None, errors = None, warnings = fst acc, lintErrors = snd acc\<rparr>)"

definition SlangLint_lint :: "(string \<Rightarrow> exec_outcome) \<Rightarrow> string list \<Rightarrow> LintResult" where
  "SlangLint_lint exec fs =
     SlangLint_parseLintOutput
       (SlangLint_run exec \<lparr>input_files = fs, input_args = Some [''--lint'']\<rparr>)"

subsection \<open>VeribleLint (tools/lint/verible.ts)\<close>

definition VeribleLint_run :: "(string \<Rightarrow> exec_outcome) \<Rightarrow> ToolInput \<Rightarrow> ToolResult" where
  "VeribleLint_run exec input =
     (let cmd = ''verible-verilog-lint '' @
            join '' '' (args_or_empty (input_args input) @ input_files input)
      in case exec cmd of
           Resolved out err \<Rightarrow>
             \<lparr>success = True, stdout = Some out, stderr = Some err,
              exitCode = Some (CodeNum 0), errors = None\<rparr>
         | Rejected e \<Rightarrow>
             \<lparr>success = False, stdout = Some (or_empty (error_stdout e)),
              stderr = Some (or_empty (error_stderr e)),
              exitCode = Some (code_or_1 (error_code e)),
              errors = Some (if or_empty (error_stderr e) \<noteq> []
                             then [or_empty (error_stderr e)] else [])\<rparr>)"

text \<open>\<^verbatim>\<open>/^(.+?):(\d+):(\d+):\s+(.+?)\s+\[(.+?)\]$/\<close>\<close>

definition VeribleLint_pattern :: regex where
  "VeribleLint_pattern = seqs
     [Bol, Group 1 (PlusLazy AnyChar), lit '':'', Group 2 (PlusGreedy DigitC), lit '':'',
      Group 3 (PlusGreedy DigitC), lit '':'', PlusGreedy SpaceC, Group 4 (PlusLazy AnyChar),
      PlusGreedy SpaceC, lit ''['', Group 5 (PlusLazy AnyChar), lit '']'', Eol]"

definition VeribleLint_parseLine ::
  "string \<Rightarrow> Diagnostic list \<times> Diagnostic list \<Rightarrow> Diagnostic list \<times> Diagnostic list" where
  "VeribleLint_parseLine row acc =
     (case rx_exec VeribleLint_pattern row of
        None \<Rightarrow> acc
      | Some m \<Rightarrow>
          (let lineNum = parseInt (group m 2); col = parseInt (group m 3);
               isError = string_includes (toLowerCase (group m 4)) ''error''
           in if isError
              then (fst acc,
                    snd acc @
                      [\<lparr>filename = group m 1, line = lineNum, column = Some col,
                        code = group m 5, message = trim (group m 4), severity = SevError\<rparr>])
              else (fst acc @
                      [\<lparr>filename = group m 1, line = lineNum, column = Some col,
                        code = group m 5, message = trim (group m 4), severity = SevWarning\<rparr>],
                    snd acc)))"

definition VeribleLint_parseLintOutput :: "ToolResult \<Rightarrow> LintResult" where
  "VeribleLint_parseLintOutput result =
     (let output = or_empty (stdout result) @ or_empty (stderr result);
          acc = foldl (\<lambda>a row. VeribleLint_parseLine row a) ([], []) (split_lines output)
      in \<lparr>success = (length (snd acc) = 0), stdout = stdout result, stderr = stderr result,
          exitCode = None, errors = None, warnings = fst acc, lintErrors = snd acc\<rparr>)"

definition VeribleLint_lint :: "(string \<Rightarrow> exec_outcome) \<Rightarrow> string list \<Rightarrow> LintResult" where
  "VeribleLint_lint exec fs =
     VeribleLint_parseLintOutput
       (VeribleLint_run exec \<lparr>input_files = fs, input_args = Some []\<rparr>)"


section \<open>Simulation adapters\<close>

subsection \<open>IcarusSim (tools/simulation/iverilog.ts)\<close>

text \<open>
  The object has one private field, \<^verbatim>\<open>executable\<close>, unset when the object is made. The
  methods that read or write it take the object and return it.
\<close>

record IcarusSim =
  this_executable :: "string option"

definition IcarusSim_new :: IcarusSim where
  "IcarusSim_new = \<lparr>this_executable = None\<rparr>"

definition IcarusSim_run :: "(string \<Rightarrow> exec_outcome) \<Rightarrow> ToolInput \<Rightarrow> ToolResult" where
  "IcarusSim_run exec input =
     (let cmd = ''iverilog '' @
            join '' '' (args_or_empty (input_args input) @ input_files input)
      in case exec cmd of
           Resolved out err \<Rightarrow>
             \<lparr>success = True, stdout = Some out, stderr = Some err,
              exitCode = Some (CodeNum 0), errors = None\<rparr>
         | Rejected e \<Rightarrow>
             \<lparr>success = False, stdout = Some (or_empty (error_stdout e)),
              stderr = Some (or_empty (error_stderr e)),
              exitCode = Some (code_or_1 (error_code e)), errors = Some [error_text e]\<rparr>)"

definition IcarusSim_compile ::
  "(string \<Rightarrow> exec_outcome) \<Rightarrow> string list \<Rightarrow> IcarusSim \<Rightarrow> CompileResult \<times> IcarusSim" where
  "IcarusSim_compile exec fs this =
     (let this1 = this\<lparr>this_executable := Some ''a.out''\<rparr>;
          compileArgs = [''-o''] @ [or_empty (this_executable this1)] @ fs;
          result = IcarusSim_run exec \<lparr>input_files = [], input_args = Some compileArgs\<rparr>
      in if \<not> success result
         then (\<lparr>success = False, stdout = None, stderr = stderr result, exitCode = None,
                errors = errors result, executable = None\<rparr>, this1)
         else (\<lparr>success = True, stdout = stdout result, stderr = stderr result,
                exitCode = None, errors = None, executable = this_executable this1\<rparr>, this1))"

text \<open>The two pattern lists of \<^verbatim>\<open>checkSimulationPassed\<close>, all under the flag \<^verbatim>\<open>i\<close>.\<close>

definition IcarusSim_passPatterns :: "regex list" where
  "IcarusSim_passPatterns =
     [lit_ci ''test passed'', lit_ci ''all tests passed'', lit_ci ''simulation passed'',
      lit_ci ''*** PASS ***'']"

definition IcarusSim_failPatterns :: "regex list" where
  "IcarusSim_failPatterns =
     [lit_ci ''test failed'', lit_ci ''error:'', lit_ci ''assertion failed'',
      lit_ci ''*** FAIL ***'']"

text \<open>
  Each loop returns at the first pattern that matches: \<open>list_ex\<close> tells whether one does.
\<close>

definition IcarusSim_checkSimulationPassed :: "string \<Rightarrow> bool" where
  "IcarusSim_checkSimulationPassed output =
     (if list_ex (\<lambda>pattern. rx_test pattern output) IcarusSim_failPatterns then False
      else if list_ex (\<lambda>pattern. rx_test pattern output) IcarusSim_passPatterns then True
      else True)"

text \<open>
  \<^verbatim>\<open>simulate\<close>: the guard \<^verbatim>\<open>if (!this.executable)\<close>, true of an unset field and of the
  empty string, and then the run of \<^verbatim>\<open>vvp\<close>, which is \<open>IcarusSim_vvp\<close>.
\<close>

definition IcarusSim_notCompiled :: SimulationResult where
  "IcarusSim_notCompiled =
     \<lparr>success = False, stdout = None,
      stderr = Some ''Design not compiled. Call compile() first.'', exitCode = None,
      errors = None, passed = False, coverage = None, waveform = None\<rparr>"

definition IcarusSim_vvp ::
  "(string \<Rightarrow> exec_outcome) \<Rightarrow> string \<Rightarrow> string list option \<Rightarrow> SimulationResult" where
  "IcarusSim_vvp exec exe args =
     (let simArgs = args_or_empty args;
          cmd = ''vvp '' @ exe @ '' '' @ join '' '' simArgs
      in case exec cmd of
           Resolved out err \<Rightarrow>
             \<lparr>success = True, stdout = Some out, stderr = Some err, exitCode = None,
              errors = None, passed = IcarusSim_checkSimulationPassed out, coverage = None,
              waveform = Some ''dump.vcd''\<rparr>
         | Rejected e \<Rightarrow>
             \<lparr>success = False, stdout = Some (or_empty (error_stdout e)),
              stderr = Some (stderr_or_message e), exitCode = None, errors = None,
              passed = False, coverage = None, waveform = None\<rparr>)"

definition IcarusSim_simulate ::
  "(string \<Rightarrow> exec_outcome) \<Rightarrow> string \<Rightarrow> string list option \<Rightarrow> IcarusSim
     \<Rightarrow> SimulationResult \<times> IcarusSim" where
  "IcarusSim_simulate exec testbench args this =
     (case this_executable this of
        None \<Rightarrow> (IcarusSim_notCompiled, this)
      | Some exe \<Rightarrow>
          if exe = [] then (IcarusSim_notCompiled, this)
          else (IcarusSim_vvp exec exe args, this))"

subsection \<open>VerilatorSim (tools/simulation/verilator.ts): pass/fail detection\<close>

definition VerilatorSim_passPatterns :: "regex list" where
  "VerilatorSim_passPatterns =
     [lit_ci ''test passed'', lit_ci ''all tests passed'', lit_ci ''simulation passed'',
      lit_ci ''*** PASS ***'']"

definition VerilatorSim_failPatterns :: "regex list" where
  "VerilatorSim_failPatterns =
     [lit_ci ''test failed'', lit_ci ''error:'', lit_ci ''assertion failed'',
      lit_ci ''*** FAIL ***'']"

definition VerilatorSim_checkSimulationPassed :: "string \<Rightarrow> bool" where
  "VerilatorSim_checkSimulationPassed output =
     (if list_ex (\<lambda>pattern. rx_test pattern output) VerilatorSim_failPatterns then False
      else if list_ex (\<lambda>pattern. rx_test pattern output) VerilatorSim_passPatterns then True
      else True)"


section \<open>The category operations of the managers\<close>

text \<open>
  \<^verbatim>\<open>console.warn\<close> in a handler writes to the console and changes nothing the program
  reads; it is left out. The outer handler of each operation builds its failure value from
  \<^verbatim>\<open>error.message\<close>; the inner handlers read no property of what they catch.
\<close>

subsection \<open>LintManager.lint (tools/lint/index.ts)\<close>

definition LintManager_noTool :: LintResult where
  "LintManager_noTool =
     \<lparr>success = False, stdout = None, stderr = Some ''No lint tool available'',
      exitCode = None, errors = None, warnings = [], lintErrors = []\<rparr>"

definition LintManager_failure :: "string option \<Rightarrow> LintResult" where
  "LintManager_failure msg =
     \<lparr>success = False, stdout = None, stderr = msg,
      exitCode = None, errors = None, warnings = [], lintErrors = []\<rparr>"

definition LintManager_lint ::
  "'w LintTool ToolManager \<Rightarrow> string list \<Rightarrow> string option \<Rightarrow> (LintResult, 'w) io" where
  "LintManager_lint m fs preferred =
     io_bind (LintManager_selectTool m preferred) (\<lambda>selected.
       case selected of
         None \<Rightarrow> io_return LintManager_noTool
       | Some tool \<Rightarrow>
           io_catch (lint_lint tool fs) (\<lambda>error.
             io_bind (read_message error) (\<lambda>msg. io_return (LintManager_failure msg))))"

subsection \<open>SimulationManager.simulate (tools/simulation/index.ts)\<close>

definition SimulationManager_noTool :: SimulationResult where
  "SimulationManager_noTool =
     \<lparr>success = False, stdout = None, stderr = Some ''No simulation tool available'',
      exitCode = None, errors = None, passed = False, coverage = None, waveform = None\<rparr>"

definition SimulationManager_compileFailed :: "CompileResult \<Rightarrow> SimulationResult" where
  "SimulationManager_compileFailed compileResult =
     \<lparr>success = False, stdout = None, stderr = stderr compileResult, exitCode = None,
      errors = errors compileResult, passed = False, coverage = None, waveform = None\<rparr>"

definition SimulationManager_failure :: "string option \<Rightarrow> SimulationResult" where
  "SimulationManager_failure msg =
     \<lparr>success = False, stdout = None, stderr = msg, exitCode = None,
      errors = None, passed = False, coverage = None, waveform = None\<rparr>"

text \<open>
  The inner \<^verbatim>\<open>try\<close> around \<^verbatim>\<open>simResult.coverage = await tool.collectCoverage()\<close>: when the
  call rejects, \<^verbatim>\<open>simResult\<close> is returned as the simulate step gave it.
\<close>

definition SimulationManager_coverage ::
  "'w SimulationTool \<Rightarrow> SimulationResult \<Rightarrow> (SimulationResult, 'w) io" where
  "SimulationManager_coverage tool simResult =
     (case sim_collectCoverage tool of
        None \<Rightarrow> io_return simResult
      | Some collect \<Rightarrow>
          if success simResult
          then io_catch
                 (io_bind collect (\<lambda>c. io_return (simResult\<lparr>coverage := Some c\<rparr>)))
                 (\<lambda>error. io_return simResult)
          else io_return simResult)"

definition SimulationManager_simulate ::
  "'w SimulationTool ToolManager \<Rightarrow> string list \<Rightarrow> string \<Rightarrow> string list option
     \<Rightarrow> string option \<Rightarrow> (SimulationResult, 'w) io" where
  "SimulationManager_simulate m fs testbench args preferred =
     io_bind (SimulationManager_selectTool m preferred) (\<lambda>selected.
       case selected of
         None \<Rightarrow> io_return SimulationManager_noTool
       | Some tool \<Rightarrow>
           io_catch
             (io_bind (sim_compile tool fs) (\<lambda>compileResult.
                if \<not> success compileResult
                then io_return (SimulationManager_compileFailed compileResult)
                else io_bind (sim_simulate tool testbench args) (\<lambda>simResult.
                       SimulationManager_coverage tool simResult)))
             (\<lambda>error.
                io_bind (read_message error) (\<lambda>msg.
                  io_return (SimulationManager_failure msg))))"

subsection \<open>SynthesisManager.synthesize (tools/synthesis/index.ts)\<close>

definition SynthesisManager_noTool :: SynthesisResult where
  "SynthesisManager_noTool =
     \<lparr>success = False, stdout = None, stderr = Some ''No synthesis tool available'',
      exitCode = None, errors = None, netlist = None, timing = None, ppa = None\<rparr>"

definition SynthesisManager_failure :: "string option \<Rightarrow> SynthesisResult" where
  "SynthesisManager_failure msg =
     \<lparr>success = False, stdout = None, stderr = msg, exitCode = None,
      errors = None, netlist = None, timing = None, ppa = None\<rparr>"

text \<open>
  The inner \<^verbatim>\<open>try\<close> holds two assignments in sequence,
  \<^verbatim>\<open>result.timing = await tool.analyzeTiming(result.netlist);
   result.ppa = await tool.estimatePPA(result.netlist);\<close>
  and its one handler only warns. A rejection of the first call leaves \<^verbatim>\<open>result\<close> as the
  synthesize step gave it and skips the second call; a rejection of the second leaves
  \<^verbatim>\<open>result\<close> with \<^verbatim>\<open>timing\<close> assigned. The two handlers below are that one handler,
  reached with \<^verbatim>\<open>result\<close> in the one state or the other.
\<close>

definition SynthesisManager_enrich ::
  "'w SynthesisTool \<Rightarrow> SynthesisResult \<Rightarrow> string \<Rightarrow> (SynthesisResult, 'w) io" where
  "SynthesisManager_enrich tool result nl =
     io_catch
       (io_bind (syn_analyzeTiming tool nl) (\<lambda>t.
          io_catch
            (io_bind (syn_estimatePPA tool nl) (\<lambda>p.
               io_return (result\<lparr>timing := Some t, ppa := Some p\<rparr>)))
            (\<lambda>error. io_return (result\<lparr>timing := Some t\<rparr>))))
       (\<lambda>error. io_return result)"

text \<open>
  The test \<^verbatim>\<open>result.success && result.netlist\<close> is false for an unset netlist and for
  the empty string.
\<close>

definition SynthesisManager_synthesize ::
  "'w SynthesisTool ToolManager \<Rightarrow> string list \<Rightarrow> string \<Rightarrow> string option
     \<Rightarrow> (SynthesisResult, 'w) io" where
  "SynthesisManager_synthesize m design constraints preferred =
     io_bind (SynthesisManager_selectTool m preferred) (\<lambda>selected.
       case selected of
         None \<Rightarrow> io_return SynthesisManager_noTool
       | Some tool \<Rightarrow>
           io_catch
             (io_bind (syn_synthesize tool design constraints) (\<lambda>result.
                if success result \<and> or_empty (netlist result) \<noteq> []
                then SynthesisManager_enrich tool result (or_empty (netlist result))
                else io_return result))
             (\<lambda>error.
                io_bind (read_message error) (\<lambda>msg.
                  io_return (SynthesisManager_failure msg))))"


section \<open>The selection rule as the specification words it\<close>

text \<open>
  The specification gives \<^verbatim>\<open>selectTool\<close> as a function of the registry \<open>R\<close>, the set \<open>I\<close>
  of the names whose tool is installed, the override and the configured preferred name:
  the override, if registered and installed; else the preferred name, if registered and
  installed; else the first adapter in registration order that is installed; else nothing.
\<close>

definition spec_named :: "(string \<times> 't) list \<Rightarrow> string set \<Rightarrow> string option \<Rightarrow> 't option" where
  "spec_named R I name =
     (case name of
        None \<Rightarrow> None
      | Some n \<Rightarrow>
          (case map_of R n of None \<Rightarrow> None | Some t \<Rightarrow> if n \<in> I then Some t else None))"

definition spec_firstInstalled :: "(string \<times> 't) list \<Rightarrow> string set \<Rightarrow> 't option" where
  "spec_firstInstalled R I =
     (case filter (\<lambda>(n, t). n \<in> I) R of [] \<Rightarrow> None | (n, t) # _ \<Rightarrow> Some t)"

definition spec_selectTool ::
  "(string \<times> 't) list \<Rightarrow> string set \<Rightarrow> string option \<Rightarrow> string option \<Rightarrow> 't option" where
  "spec_selectTool R I override preferred =
     (case spec_named R I override of
        Some t \<Rightarrow> Some t
      | None \<Rightarrow>
          (case spec_named R I preferred of
             Some t \<Rightarrow> Some t
           | None \<Rightarrow> spec_firstInstalled R I))"

text \<open>A name that is given: present and not the empty string.\<close>

definition given_name :: "string option \<Rightarrow> string option" where
  "given_name name = (case name of None \<Rightarrow> None | Some n \<Rightarrow> if n = [] then None else Some n)"

text \<open>
  An installed-set describes the probes of a registry when, in every world, the probe of
  the tool registered under a name answers whether the name is in the set.
\<close>

definition probes_answer ::
  "('t \<Rightarrow> (bool, 'w) io) \<Rightarrow> (string \<times> 't) list \<Rightarrow> string set \<Rightarrow> bool" where
  "probes_answer probe R I = (\<forall>(n, t) \<in> set R. \<forall>w. fst (probe t w) = Inr (n \<in> I))"


section \<open>Adapters for the examples\<close>

text \<open>
  The world of the example adapters is the list of the adapter methods called so far.
  Each method appends its name and gives a fixed outcome.
\<close>

definition logged :: "string \<Rightarrow> js_error + 'a \<Rightarrow> ('a, string list) io" where
  "logged name outcome = (\<lambda>w. (outcome, w @ [name]))"

definition exampleLint :: "bool \<Rightarrow> js_error + LintResult \<Rightarrow> string list LintTool" where
  "exampleLint inst outcome =
     \<lparr>lint_isInstalled = logged ''isInstalled'' (Inr inst),
      lint_lint = (\<lambda>fs. logged ''lint'' outcome)\<rparr>"

definition exampleCoverage :: CoverageResult where
  "exampleCoverage = \<lparr>cov_line = 0, cov_toggle = 0, cov_fsm = 0, cov_functional = None\<rparr>"

definition exampleSim ::
  "bool \<Rightarrow> js_error + CompileResult \<Rightarrow> js_error + SimulationResult
     \<Rightarrow> string list SimulationTool" where
  "exampleSim inst compiled simulated =
     \<lparr>sim_isInstalled = logged ''isInstalled'' (Inr inst),
      sim_compile = (\<lambda>fs. logged ''compile'' compiled),
      sim_simulate = (\<lambda>testbench args. logged ''simulate'' simulated),
      sim_collectCoverage = Some (logged ''collectCoverage'' (Inr exampleCoverage))\<rparr>"

definition exampleSynth ::
  "bool \<Rightarrow> js_error + SynthesisResult \<Rightarrow> js_error + TimingResult \<Rightarrow> js_error + PPAResult
     \<Rightarrow> string list SynthesisTool" where
  "exampleSynth inst synthesized analyzed estimated =
     \<lparr>syn_isInstalled = logged ''isInstalled'' (Inr inst),
      syn_synthesize = (\<lambda>design constraints. logged ''synthesize'' synthesized),
      syn_analyzeTiming = (\<lambda>nl. logged ''analyzeTiming'' analyzed),
      syn_estimatePPA = (\<lambda>nl. logged ''estimatePPA'' estimated)\<rparr>"

definition exampleLintResult :: "string \<Rightarrow> LintResult" where
  "exampleLintResult label =
     \<lparr>success = True, stdout = Some label, stderr = None, exitCode = None, errors = None,
      warnings = [], lintErrors = []\<rparr>"

definition exampleCompileOk :: CompileResult where
  "exampleCompileOk =
     \<lparr>success = True, stdout = Some [], stderr = Some [], exitCode = None, errors = None,
      executable = Some ''a.out''\<rparr>"

definition exampleCompileFailed :: CompileResult where
  "exampleCompileFailed =
     \<lparr>success = False, stdout = None, stderr = Some ''top.v:3: syntax error'',
      exitCode = None, errors = Some [''Command failed: iverilog -o a.out top.v''],
      executable = None\<rparr>"

definition exampleSimResult :: SimulationResult where
  "exampleSimResult =
     \<lparr>success = True, stdout = Some ''TEST PASSED'', stderr = Some [], exitCode = None,
      errors = None, passed = True, coverage = None, waveform = Some ''dump.vcd''\<rparr>"

definition exampleTiming :: TimingResult where
  "exampleTiming =
     \<lparr>criticalPath_start = ''a'', criticalPath_end = ''q'', criticalPath_delay = 2,
      slack = 1, frequency = 100\<rparr>"

definition examplePPA :: PPAResult where
  "examplePPA =
     \<lparr>area_cells = 10, area_area = 25, power_dynamic = 1, power_static = 1, power_total = 2,
      performance_frequency = 100\<rparr>"

definition exampleSynthResult :: "TimingResult option \<Rightarrow> SynthesisResult" where
  "exampleSynthResult t =
     \<lparr>success = True, stdout = Some [], stderr = Some [], exitCode = None, errors = None,
      netlist = Some ''top_synth.v'', timing = t, ppa = None\<rparr>"

text \<open>
  A replacement of the simulate method of every adapter of a registry, to tell whether a
  manager operation calls it.
\<close>

definition withSimulate ::
  "(string \<Rightarrow> string list option \<Rightarrow> (SimulationResult, 'w) io) \<Rightarrow> 'w SimulationTool ToolManager
     \<Rightarrow> 'w SimulationTool ToolManager" where
  "withSimulate f m = m\<lparr>tools := map (\<lambda>(n, t). (n, t\<lparr>sim_simulate := f\<rparr>)) (tools m)\<rparr>"

text \<open>Three lint adapters: two installed ones that differ in what they report, and one that is not installed.\<close>

definition exampleLintA :: "string list LintTool" where
  "exampleLintA = exampleLint True (Inr (exampleLintResult ''A''))"

definition exampleLintB :: "string list LintTool" where
  "exampleLintB = exampleLint True (Inr (exampleLintResult ''B''))"

definition exampleLintAbsent :: "string list LintTool" where
  "exampleLintAbsent = exampleLint False (Inr (exampleLintResult ''absent''))"

text \<open>Adapters whose category method rejects.\<close>

definition raisingLint :: "string list LintTool" where
  "raisingLint = exampleLint True (Inl (Error ''spawn verilator ENOENT''))"

definition raisingCompile :: "string list SimulationTool" where
  "raisingCompile =
     exampleSim True (Inl (Error ''The path argument must be of type string''))
       (Inr exampleSimResult)"

definition raisingSimulate :: "string list SimulationTool" where
  "raisingSimulate = exampleSim True (Inr exampleCompileOk) (Inl (Error ''vvp crashed''))"

definition raisingSynthesize :: "string list SynthesisTool" where
  "raisingSynthesize =
     exampleSynth True (Inl (Error ''yosys crashed'')) (Inr exampleTiming) (Inr examplePPA)"

text \<open>A lint adapter whose \<^verbatim>\<open>lint\<close> rejects with \<^verbatim>\<open>null\<close>.\<close>

definition raisingNullLint :: "string list LintTool" where
  "raisingNullLint = exampleLint True (Inl ThrownNull)"

text \<open>Adapters for the examples of the two-phase simulation and of the enrichment.\<close>

definition failingCompile :: "string list SimulationTool" where
  "failingCompile = exampleSim True (Inr exampleCompileFailed) (Inr exampleSimResult)"

definition raisingTiming :: "TimingResult option \<Rightarrow> string list SynthesisTool" where
  "raisingTiming t =
     exampleSynth True (Inr (exampleSynthResult t)) (Inl (Error ''sta failed''))
       (Inr examplePPA)"

definition raisingPPA :: "string list SynthesisTool" where
  "raisingPPA =
     exampleSynth True (Inr (exampleSynthResult None)) (Inr exampleTiming)
       (Inl (Error ''report failed''))"

text \<open>A run of \<^verbatim>\<open>vvp\<close> whose output holds a pass marker and a failure marker.\<close>

definition exampleMixedOutput :: string where
  "exampleMixedOutput = ''All tests passed; TEST FAILED: checker 3''"

definition exampleMixedRun :: "string \<Rightarrow> exec_outcome" where
  "exampleMixedRun cmd = Resolved exampleMixedOutput []"

text \<open>A command that fails: \<^verbatim>\<open>iverilog\<close> rejects the source.\<close>

definition exampleFailedRun :: "string \<Rightarrow> exec_outcome" where
  "exampleFailedRun cmd =
     Rejected \<lparr>error_stdout = Some [], error_stderr = Some ''top.v:3: syntax error'',
               error_code = Some (CodeNum 2), error_text = ''Command failed: '' @ cmd\<rparr>"

text \<open>
  The invariant of the two arrays of \<^verbatim>\<open>parseLintOutput\<close>: an entry of \<^verbatim>\<open>warnings\<close> is no
  error, an entry of \<^verbatim>\<open>errors\<close> is one.
\<close>

definition sorted_by_severity :: "Diagnostic list \<times> Diagnostic list \<Rightarrow> bool" where
  "sorted_by_severity acc =
     (list_all (\<lambda>d. severity d \<noteq> SevError) (fst acc) \<and>
      list_all (\<lambda>d. severity d = SevError) (snd acc))"

text \<open>The diagnostics of error severity among those of a result.\<close>

definition error_diagnostics :: "LintResult \<Rightarrow> Diagnostic list" where
  "error_diagnostics r = filter (\<lambda>d. severity d = SevError) (warnings r @ lintErrors r)"

text \<open>The lines of the raw output of a process, as \<^verbatim>\<open>parseLintOutput\<close> reads them.\<close>

definition output_lines :: "ToolResult \<Rightarrow> string list" where
  "output_lines result = split_lines (or_empty (stdout result) @ or_empty (stderr result))"

text \<open>A lint process that crashes: non-zero exit, and output in no adapter's grammar.\<close>

definition exampleCrashedRun :: "string \<Rightarrow> exec_outcome" where
  "exampleCrashedRun cmd =
     Rejected \<lparr>error_stdout = Some [], error_stderr = Some ''Segmentation fault (core dumped)'',
               error_code = Some (CodeNum 139), error_text = ''Command failed: '' @ cmd\<rparr>"


section \<open>Properties\<close>

subsection \<open>Selection\<close>

lemma selectNamed_answer:
  assumes "probes_answer probe R I"
  shows "fst (selectNamed probe R name w) = Inr (spec_named R I (given_name name))"
proof (cases name)
  case None
  then show ?thesis by (simp add: selectNamed_def spec_named_def given_name_def io_return_def)
next
  case (Some n)
  show ?thesis
  proof (cases "map_of R n")
    case None
    with Some show ?thesis
      by (simp add: selectNamed_def spec_named_def given_name_def io_return_def map_has_def)
  next
    case (Some t)
    then have "(n, t) \<in> set R" by (rule map_of_SomeD)
    with assms have p: "fst (probe t w) = Inr (n \<in> I)" by (auto simp: probes_answer_def)
    obtain r w' where pw: "probe t w = (r, w')" by (cases "probe t w")
    with p have "r = Inr (n \<in> I)" by simp
    with pw Some \<open>name = Some n\<close> show ?thesis
      by (simp add: selectNamed_def spec_named_def given_name_def io_return_def io_bind_def
          map_has_def)
  qed
qed

lemma selectFirstInstalled_answer:
  assumes "probes_answer probe R I"
  shows "fst (selectFirstInstalled probe R w) = Inr (spec_firstInstalled R I)"
  using assms
proof (induction R arbitrary: w)
  case Nil
  then show ?case by (simp add: spec_firstInstalled_def)
next
  case (Cons a R)
  obtain n t where a: "a = (n, t)" by (cases a)
  from Cons.prems a have p: "fst (probe t w) = Inr (n \<in> I)" by (simp add: probes_answer_def)
  obtain r w' where pw: "probe t w = (r, w')" by (cases "probe t w")
  with p have r: "r = Inr (n \<in> I)" by simp
  from Cons.prems have "probes_answer probe R I" by (simp add: probes_answer_def)
  then have ih: "fst (selectFirstInstalled probe R w') = Inr (spec_firstInstalled R I)"
    by (rule Cons.IH)
  show ?case
  proof (cases "n \<in> I")
    case True
    with a pw r show ?thesis by (simp add: spec_firstInstalled_def)
  next
    case False
    with a pw r ih show ?thesis by (simp add: spec_firstInstalled_def)
  qed
qed

lemma selectTool_answer:
  assumes "probes_answer probe (tools m) I"
  shows "fst (selectTool probe m override w) =
           Inr (spec_selectTool (tools m) I (given_name override) (given_name (preferredTool m)))"
proof -
  have n: "fst (selectNamed probe (tools m) name v) = Inr (spec_named (tools m) I (given_name name))"
    for name v using assms by (rule selectNamed_answer)
  have f: "fst (selectFirstInstalled probe (tools m) v) = Inr (spec_firstInstalled (tools m) I)"
    for v using assms by (rule selectFirstInstalled_answer)
  obtain r1 w1 where s1: "selectNamed probe (tools m) override w = (r1, w1)"
    by (cases "selectNamed probe (tools m) override w")
  with n [of override w] have r1: "r1 = Inr (spec_named (tools m) I (given_name override))" by simp
  obtain r2 w2 where s2: "selectNamed probe (tools m) (preferredTool m) w1 = (r2, w2)"
    by (cases "selectNamed probe (tools m) (preferredTool m) w1")
  with n [of "preferredTool m" w1]
  have r2: "r2 = Inr (spec_named (tools m) I (given_name (preferredTool m)))" by simp
  show ?thesis
    using s1 r1 s2 r2 f [of w2]
    by (simp add: selectTool_def io_bind_def io_return_def spec_selectTool_def
        split: option.splits)
qed

lemma exampleLintA_neq_B: "exampleLintA \<noteq> exampleLintB"
proof
  assume "exampleLintA = exampleLintB"
  then have "lint_lint exampleLintA [] [] = lint_lint exampleLintB [] []" by simp
  then show False
    by (simp add: exampleLintA_def exampleLintB_def exampleLint_def logged_def
        exampleLintResult_def)
qed

text \<open>
  Claim C1, as amended. In each of the three managers, for every registry, every
  installed-set that describes the probes, every override and every configured preferred
  name, \<^verbatim>\<open>selectTool\<close> does not raise and returns what the precedence rule of the
  specification gives once an empty-string override or preferred name counts as absent:
  the override if it is given, registered and installed, else the preferred name if it is
  given, registered and installed, else the first installed adapter in registration order,
  else nothing.
\<close>

theorem selectTool_precedence:
  assumes "probes_answer lint_isInstalled (tools ml) Il"
    and "probes_answer sim_isInstalled (tools ms) Is"
    and "probes_answer syn_isInstalled (tools my) Iy"
  shows "fst (LintManager_selectTool ml ol wl) =
           Inr (spec_selectTool (tools ml) Il (given_name ol) (given_name (preferredTool ml)))
       \<and> fst (SimulationManager_selectTool ms os ws) =
           Inr (spec_selectTool (tools ms) Is (given_name os) (given_name (preferredTool ms)))
       \<and> fst (SynthesisManager_selectTool my oy wy) =
           Inr (spec_selectTool (tools my) Iy (given_name oy) (given_name (preferredTool my)))"
  unfolding LintManager_selectTool_def SimulationManager_selectTool_def
    SynthesisManager_selectTool_def
  using assms by (simp add: selectTool_answer)

text \<open>
  An instance: the override names a registered tool that is not installed and selection
  falls through to the first installed one; a preferred tool that is installed is selected;
  with nothing installed the answer is nothing.
\<close>

theorem selectTool_precedence_witness:
  "probes_answer lint_isInstalled
     [(''verilator'', exampleLintAbsent), (''slang'', exampleLintB)] {''slang''}
   \<and> probes_answer sim_isInstalled
     [(''iverilog'', exampleSim True (Inr exampleCompileOk) (Inr exampleSimResult))] {''iverilog''}
   \<and> probes_answer syn_isInstalled
     [(''yosys'', exampleSynth False (Inr (exampleSynthResult None)) (Inr exampleTiming) (Inr examplePPA))] {}
   \<and> fst (LintManager_selectTool
        \<lparr>tools = [(''verilator'', exampleLintAbsent), (''slang'', exampleLintB)],
         preferredTool = None\<rparr> (Some ''verilator'') []) = Inr (Some exampleLintB)
   \<and> fst (SimulationManager_selectTool
        \<lparr>tools = [(''iverilog'', exampleSim True (Inr exampleCompileOk) (Inr exampleSimResult))],
         preferredTool = Some ''iverilog''\<rparr> None []) =
       Inr (Some (exampleSim True (Inr exampleCompileOk) (Inr exampleSimResult)))
   \<and> fst (SynthesisManager_selectTool
        \<lparr>tools = [(''yosys'', exampleSynth False (Inr (exampleSynthResult None)) (Inr exampleTiming) (Inr examplePPA))],
         preferredTool = None\<rparr> None []) = Inr None"
proof -
  have l: "probes_answer lint_isInstalled
     [(''verilator'', exampleLintAbsent), (''slang'', exampleLintB)] {''slang''}"
    by (simp add: probes_answer_def exampleLintAbsent_def exampleLintB_def exampleLint_def
        logged_def)
  have s: "probes_answer sim_isInstalled
     [(''iverilog'', exampleSim True (Inr exampleCompileOk) (Inr exampleSimResult))] {''iverilog''}"
    by (simp add: probes_answer_def exampleSim_def logged_def)
  have y: "probes_answer syn_isInstalled
     [(''yosys'', exampleSynth False (Inr (exampleSynthResult None)) (Inr exampleTiming) (Inr examplePPA))] {}"
    by (simp add: probes_answer_def exampleSynth_def logged_def)
  show ?thesis
    using l s y
      selectTool_precedence
        [of "\<lparr>tools = [(''verilator'', exampleLintAbsent), (''slang'', exampleLintB)],
              preferredTool = None\<rparr>" "{''slang''}"
            "\<lparr>tools = [(''iverilog'', exampleSim True (Inr exampleCompileOk) (Inr exampleSimResult))],
              preferredTool = Some ''iverilog''\<rparr>" "{''iverilog''}"
            "\<lparr>tools = [(''yosys'', exampleSynth False (Inr (exampleSynthResult None)) (Inr exampleTiming) (Inr examplePPA))],
              preferredTool = None\<rparr>" "{}"
            "Some ''verilator''" "[]" None "[]" None "[]"]
    by (simp add: spec_selectTool_def spec_named_def spec_firstInstalled_def given_name_def)
qed

text \<open>
  Claim C1 as stated fails: a tool registered under the empty name and installed is not
  selected when the override names it, because \<^verbatim>\<open>preferred &&\<close> is false for the empty
  string; the preferred tool is returned where the stated rule gives the override.
\<close>

theorem selectTool_empty_name_counterexample:
  "setPreferred ''Lint'' ''b'' (register ''b'' exampleLintB (register [] exampleLintA newManager)) =
     Inr \<lparr>tools = [([], exampleLintA), (''b'', exampleLintB)], preferredTool = Some ''b''\<rparr>
   \<and> probes_answer lint_isInstalled [([], exampleLintA), (''b'', exampleLintB)] {[], ''b''}
   \<and> fst (LintManager_selectTool
        \<lparr>tools = [([], exampleLintA), (''b'', exampleLintB)], preferredTool = Some ''b''\<rparr>
        (Some []) []) = Inr (Some exampleLintB)
   \<and> spec_selectTool [([], exampleLintA), (''b'', exampleLintB)] {[], ''b''} (Some []) (Some ''b'') =
       Some exampleLintA
   \<and> fst (LintManager_selectTool
        \<lparr>tools = [([], exampleLintA), (''b'', exampleLintB)], preferredTool = Some ''b''\<rparr>
        (Some []) []) \<noteq>
       Inr (spec_selectTool [([], exampleLintA), (''b'', exampleLintB)] {[], ''b''} (Some [])
              (Some ''b''))"
proof -
  have a: "setPreferred ''Lint'' ''b'' (register ''b'' exampleLintB (register [] exampleLintA newManager)) =
     Inr \<lparr>tools = [([], exampleLintA), (''b'', exampleLintB)], preferredTool = Some ''b''\<rparr>"
    by (simp add: setPreferred_def register_def newManager_def map_has_def)
  have b: "probes_answer lint_isInstalled [([], exampleLintA), (''b'', exampleLintB)] {[], ''b''}"
    by (simp add: probes_answer_def exampleLintA_def exampleLintB_def exampleLint_def logged_def)
  have c: "fst (LintManager_selectTool
        \<lparr>tools = [([], exampleLintA), (''b'', exampleLintB)], preferredTool = Some ''b''\<rparr>
        (Some []) []) = Inr (Some exampleLintB)"
    by (simp add: LintManager_selectTool_def selectTool_def selectNamed_def io_bind_def
        io_return_def map_has_def exampleLintB_def exampleLint_def logged_def)
  have d: "spec_selectTool [([], exampleLintA), (''b'', exampleLintB)] {[], ''b''} (Some []) (Some ''b'') =
       Some exampleLintA"
    by (simp add: spec_selectTool_def spec_named_def)
  from a b c d exampleLintA_neq_B show ?thesis by (simp del: fst_conv) 
qed

subsection \<open>Exceptions of the category methods\<close>

lemma io_catch_returns:
  assumes "\<And>e v. \<exists>r. fst (h e v) = Inr r"
  shows "\<exists>r. fst (io_catch m h w) = Inr r"
proof (cases "m w")
  case (Pair a w')
  show ?thesis
  proof (cases a)
    case (Inl e)
    with Pair assms [of e w'] show ?thesis by (simp add: io_catch_def)
  next
    case (Inr x)
    with Pair show ?thesis by (simp add: io_catch_def)
  qed
qed

lemma selected_split:
  assumes "fst (sel w) = Inr s"
  obtains w1 where "sel w = (Inr s, w1)"
  using assms by (cases "sel w") auto

lemma read_message_property:
  "error \<noteq> ThrownNull \<Longrightarrow> error \<noteq> ThrownUndefined \<Longrightarrow>
     read_message error w = (Inr (message_property error), w)"
  by (simp add: read_message_def io_return_def)

lemma LintManager_lint_folds:
  assumes "LintManager_selectTool m ov w = (Inr (Some tool), w1)"
    and "lint_lint tool fs w1 = (Inl e, w2)"
    and "e \<noteq> ThrownNull" and "e \<noteq> ThrownUndefined"
  shows "LintManager_lint m fs ov w = (Inr (LintManager_failure (message_property e)), w2)"
  using assms
  by (simp add: LintManager_lint_def io_bind_def io_catch_def io_return_def
      read_message_property)

text \<open>
  The probes are called by \<^verbatim>\<open>selectTool\<close>, before the \<^verbatim>\<open>try\<close> block of the operation: the
  rejection of a probe is the rejection of the operation. The adapters of this repository
  catch inside \<^verbatim>\<open>isInstalled\<close>, so theirs never reject.
\<close>

lemma LintManager_lint_probe_rejection:
  assumes "LintManager_selectTool m ov w = (Inl e, v)"
  shows "LintManager_lint m fs ov w = (Inl e, v)"
  using assms by (simp add: LintManager_lint_def io_bind_def)

lemma SimulationManager_compile_raises:
  assumes "SimulationManager_selectTool m ov w = (Inr (Some tool), w1)"
    and "sim_compile tool fs w1 = (Inl e, w2)"
    and "e \<noteq> ThrownNull" and "e \<noteq> ThrownUndefined"
  shows "SimulationManager_simulate m fs tb args ov w =
           (Inr (SimulationManager_failure (message_property e)), w2)"
  using assms
  by (simp add: SimulationManager_simulate_def io_bind_def io_catch_def io_return_def
      read_message_property)

lemma SimulationManager_simulate_raises:
  assumes "SimulationManager_selectTool m ov w = (Inr (Some tool), w1)"
    and "sim_compile tool fs w1 = (Inr c, w2)" and "success c"
    and "sim_simulate tool tb args w2 = (Inl e, w3)"
    and "e \<noteq> ThrownNull" and "e \<noteq> ThrownUndefined"
  shows "SimulationManager_simulate m fs tb args ov w =
           (Inr (SimulationManager_failure (message_property e)), w3)"
proof -
  have "io_bind (sim_compile tool fs) (\<lambda>compileResult.
                if \<not> success compileResult
                then io_return (SimulationManager_compileFailed compileResult)
                else io_bind (sim_simulate tool tb args) (\<lambda>simResult.
                       SimulationManager_coverage tool simResult)) w1 = (Inl e, w3)"
    using assms by (simp add: io_bind_def)
  then show ?thesis
    using assms(1,5,6)
    by (simp add: SimulationManager_simulate_def
        io_bind_def [of "SimulationManager_selectTool m ov"] io_catch_def
        io_bind_def [of "read_message e"] io_return_def read_message_property)
qed

lemma SimulationManager_compile_fails:
  assumes "SimulationManager_selectTool m ov w = (Inr (Some tool), w1)"
    and "sim_compile tool fs w1 = (Inr c, w2)" and "\<not> success c"
  shows "SimulationManager_simulate m fs tb args ov w =
           (Inr (SimulationManager_compileFailed c), w2)"
proof -
  have "io_bind (sim_compile tool fs) (\<lambda>compileResult.
                if \<not> success compileResult
                then io_return (SimulationManager_compileFailed compileResult)
                else io_bind (sim_simulate tool tb args) (\<lambda>simResult.
                       SimulationManager_coverage tool simResult)) w1 =
        (Inr (SimulationManager_compileFailed c), w2)"
    using assms by (simp add: io_bind_def io_return_def)
  then show ?thesis
    using assms(1)
    by (simp add: SimulationManager_simulate_def io_bind_def [of "SimulationManager_selectTool m ov"]
        io_catch_def)
qed

lemma SynthesisManager_synthesize_raises:
  assumes "SynthesisManager_selectTool m ov w = (Inr (Some tool), w1)"
    and "syn_synthesize tool d k w1 = (Inl e, w2)"
    and "e \<noteq> ThrownNull" and "e \<noteq> ThrownUndefined"
  shows "SynthesisManager_synthesize m d k ov w =
           (Inr (SynthesisManager_failure (message_property e)), w2)"
  using assms
  by (simp add: SynthesisManager_synthesize_def io_bind_def io_catch_def io_return_def
      read_message_property)

text \<open>
  Claim C2, as amended. When the category method of the selected adapter (\<^verbatim>\<open>lint\<close>;
  \<^verbatim>\<open>compile\<close>; \<^verbatim>\<open>simulate\<close> after a successful compile; \<^verbatim>\<open>synthesize\<close>) rejects with a
  value other than \<^verbatim>\<open>null\<close> and \<^verbatim>\<open>undefined\<close>, the manager operation does not raise: for
  every file list and every override it returns the failure value with \<^verbatim>\<open>success: false\<close>
  and, in \<^verbatim>\<open>stderr\<close>, the \<^verbatim>\<open>message\<close> of the value that was thrown (the message of the
  exception when it is an \<^verbatim>\<open>Error\<close>, unset when the value has none).
\<close>

theorem manager_operations_fold_exceptions:
  "(LintManager_selectTool ml ol wl = (Inr (Some lt), wla) \<and>
    lint_lint lt fl wla = (Inl el, wlb) \<and> el \<noteq> ThrownNull \<and> el \<noteq> ThrownUndefined \<longrightarrow>
      LintManager_lint ml fl ol wl =
        (Inr \<lparr>success = False, stdout = None, stderr = message_property el,
              exitCode = None, errors = None, warnings = [], lintErrors = []\<rparr>, wlb))
   \<and> (SimulationManager_selectTool ms os ws = (Inr (Some st), wsa) \<and>
       sim_compile st fs wsa = (Inl ec, wsb) \<and> ec \<noteq> ThrownNull \<and> ec \<noteq> ThrownUndefined \<longrightarrow>
      SimulationManager_simulate ms fs tb args os ws =
        (Inr \<lparr>success = False, stdout = None, stderr = message_property ec,
              exitCode = None, errors = None, passed = False, coverage = None,
              waveform = None\<rparr>, wsb))
   \<and> (SimulationManager_selectTool ms' os' ws' = (Inr (Some st'), wsa') \<and>
       sim_compile st' fs' wsa' = (Inr c, wsb') \<and> success c \<and>
       sim_simulate st' tb' args' wsb' = (Inl es, wsc') \<and>
       es \<noteq> ThrownNull \<and> es \<noteq> ThrownUndefined \<longrightarrow>
      SimulationManager_simulate ms' fs' tb' args' os' ws' =
        (Inr \<lparr>success = False, stdout = None, stderr = message_property es,
              exitCode = None, errors = None, passed = False, coverage = None,
              waveform = None\<rparr>, wsc'))
   \<and> (SynthesisManager_selectTool my oy wy = (Inr (Some yt), wya) \<and>
       syn_synthesize yt d k wya = (Inl ey, wyb) \<and>
       ey \<noteq> ThrownNull \<and> ey \<noteq> ThrownUndefined \<longrightarrow>
      SynthesisManager_synthesize my d k oy wy =
        (Inr \<lparr>success = False, stdout = None, stderr = message_property ey,
              exitCode = None, errors = None, netlist = None, timing = None, ppa = None\<rparr>,
         wyb))"
  using LintManager_lint_folds [of ml ol wl lt wla fl el wlb]
    SimulationManager_compile_raises [of ms os ws st wsa fs ec wsb tb args]
    SimulationManager_simulate_raises [of ms' os' ws' st' wsa' fs' c wsb' tb' args' es wsc']
    SynthesisManager_synthesize_raises [of my oy wy yt wya d k ey wyb]
  by (simp add: LintManager_failure_def SimulationManager_failure_def
      SynthesisManager_failure_def)

text \<open>
  An instance for each operation: the one registered adapter is installed and its category
  method rejects with an \<^verbatim>\<open>Error\<close>, whose message ends up in \<^verbatim>\<open>stderr\<close>.
\<close>

theorem manager_operations_fold_exceptions_witness:
  "LintManager_selectTool \<lparr>tools = [(''verilator'', raisingLint)], preferredTool = None\<rparr>
        None [] = (Inr (Some raisingLint), [''isInstalled''])
   \<and> lint_lint raisingLint [''top.v''] [''isInstalled''] =
        (Inl (Error ''spawn verilator ENOENT''), [''isInstalled'', ''lint''])
   \<and> Error ''spawn verilator ENOENT'' \<noteq> ThrownNull
   \<and> Error ''spawn verilator ENOENT'' \<noteq> ThrownUndefined
   \<and> LintManager_lint \<lparr>tools = [(''verilator'', raisingLint)], preferredTool = None\<rparr>
        [''top.v''] None [] =
        (Inr \<lparr>success = False, stdout = None, stderr = Some ''spawn verilator ENOENT'',
              exitCode = None, errors = None, warnings = [], lintErrors = []\<rparr>,
         [''isInstalled'', ''lint''])
   \<and> SimulationManager_selectTool
        \<lparr>tools = [(''verilator'', raisingCompile)], preferredTool = None\<rparr> None [] =
        (Inr (Some raisingCompile), [''isInstalled''])
   \<and> sim_compile raisingCompile [] [''isInstalled''] =
        (Inl (Error ''The path argument must be of type string''), [''isInstalled'', ''compile''])
   \<and> SimulationManager_simulate
        \<lparr>tools = [(''verilator'', raisingCompile)], preferredTool = None\<rparr> [] ''tb.v'' None
        None [] =
        (Inr \<lparr>success = False, stdout = None,
              stderr = Some ''The path argument must be of type string'', exitCode = None,
              errors = None, passed = False, coverage = None, waveform = None\<rparr>,
         [''isInstalled'', ''compile''])
   \<and> SimulationManager_selectTool
        \<lparr>tools = [(''iverilog'', raisingSimulate)], preferredTool = None\<rparr> None [] =
        (Inr (Some raisingSimulate), [''isInstalled''])
   \<and> sim_compile raisingSimulate [''top.v''] [''isInstalled''] =
        (Inr exampleCompileOk, [''isInstalled'', ''compile''])
   \<and> success exampleCompileOk
   \<and> sim_simulate raisingSimulate ''tb.v'' None [''isInstalled'', ''compile''] =
        (Inl (Error ''vvp crashed''), [''isInstalled'', ''compile'', ''simulate''])
   \<and> SimulationManager_simulate
        \<lparr>tools = [(''iverilog'', raisingSimulate)], preferredTool = None\<rparr> [''top.v'']
        ''tb.v'' None None [] =
        (Inr \<lparr>success = False, stdout = None, stderr = Some ''vvp crashed'', exitCode = None,
              errors = None, passed = False, coverage = None, waveform = None\<rparr>,
         [''isInstalled'', ''compile'', ''simulate''])
   \<and> SynthesisManager_selectTool
        \<lparr>tools = [(''yosys'', raisingSynthesize)], preferredTool = None\<rparr> None [] =
        (Inr (Some raisingSynthesize), [''isInstalled''])
   \<and> syn_synthesize raisingSynthesize [''top.v''] ''clk.sdc'' [''isInstalled''] =
        (Inl (Error ''yosys crashed''), [''isInstalled'', ''synthesize''])
   \<and> SynthesisManager_synthesize
        \<lparr>tools = [(''yosys'', raisingSynthesize)], preferredTool = None\<rparr> [''top.v'']
        ''clk.sdc'' None [] =
        (Inr \<lparr>success = False, stdout = None, stderr = Some ''yosys crashed'', exitCode = None,
              errors = None, netlist = None, timing = None, ppa = None\<rparr>,
         [''isInstalled'', ''synthesize''])"
proof -
  have sl: "LintManager_selectTool \<lparr>tools = [(''verilator'', raisingLint)], preferredTool = None\<rparr>
        None [] = (Inr (Some raisingLint), [''isInstalled''])"
    by (simp add: LintManager_selectTool_def selectTool_def selectNamed_def io_bind_def
        io_return_def raisingLint_def exampleLint_def logged_def)
  have rl: "lint_lint raisingLint [''top.v''] [''isInstalled''] =
        (Inl (Error ''spawn verilator ENOENT''), [''isInstalled'', ''lint''])"
    by (simp add: raisingLint_def exampleLint_def logged_def)
  have sc: "SimulationManager_selectTool
        \<lparr>tools = [(''verilator'', raisingCompile)], preferredTool = None\<rparr> None [] =
        (Inr (Some raisingCompile), [''isInstalled''])"
    by (simp add: SimulationManager_selectTool_def selectTool_def selectNamed_def io_bind_def
        io_return_def raisingCompile_def exampleSim_def logged_def)
  have rc: "sim_compile raisingCompile [] [''isInstalled''] =
        (Inl (Error ''The path argument must be of type string''), [''isInstalled'', ''compile''])"
    by (simp add: raisingCompile_def exampleSim_def logged_def)
  have ss: "SimulationManager_selectTool
        \<lparr>tools = [(''iverilog'', raisingSimulate)], preferredTool = None\<rparr> None [] =
        (Inr (Some raisingSimulate), [''isInstalled''])"
    by (simp add: SimulationManager_selectTool_def selectTool_def selectNamed_def io_bind_def
        io_return_def raisingSimulate_def exampleSim_def logged_def)
  have cs: "sim_compile raisingSimulate [''top.v''] [''isInstalled''] =
        (Inr exampleCompileOk, [''isInstalled'', ''compile''])"
    by (simp add: raisingSimulate_def exampleSim_def logged_def)
  have ok: "success exampleCompileOk" by (simp add: exampleCompileOk_def)
  have rs: "sim_simulate raisingSimulate ''tb.v'' None [''isInstalled'', ''compile''] =
        (Inl (Error ''vvp crashed''), [''isInstalled'', ''compile'', ''simulate''])"
    by (simp add: raisingSimulate_def exampleSim_def logged_def)
  have sy: "SynthesisManager_selectTool
        \<lparr>tools = [(''yosys'', raisingSynthesize)], preferredTool = None\<rparr> None [] =
        (Inr (Some raisingSynthesize), [''isInstalled''])"
    by (simp add: SynthesisManager_selectTool_def selectTool_def selectNamed_def io_bind_def
        io_return_def raisingSynthesize_def exampleSynth_def logged_def)
  have ry: "syn_synthesize raisingSynthesize [''top.v''] ''clk.sdc'' [''isInstalled''] =
        (Inl (Error ''yosys crashed''), [''isInstalled'', ''synthesize''])"
    by (simp add: raisingSynthesize_def exampleSynth_def logged_def)
  show ?thesis
    using sl rl sc rc ss cs ok rs sy ry
      manager_operations_fold_exceptions
        [where ml = "\<lparr>tools = [(''verilator'', raisingLint)], preferredTool = None\<rparr>"
           and ol = None and wl = "[]" and lt = raisingLint and wla = "[''isInstalled'']"
           and fl = "[''top.v'']" and el = "Error ''spawn verilator ENOENT''"
           and wlb = "[''isInstalled'', ''lint'']"
           and ms = "\<lparr>tools = [(''verilator'', raisingCompile)], preferredTool = None\<rparr>"
           and os = None and ws = "[]" and st = raisingCompile and wsa = "[''isInstalled'']"
           and fs = "[]" and ec = "Error ''The path argument must be of type string''"
           and wsb = "[''isInstalled'', ''compile'']" and tb = "''tb.v''" and args = None
           and ms' = "\<lparr>tools = [(''iverilog'', raisingSimulate)], preferredTool = None\<rparr>"
           and os' = None and ws' = "[]" and st' = raisingSimulate
           and wsa' = "[''isInstalled'']" and fs' = "[''top.v'']" and c = exampleCompileOk
           and wsb' = "[''isInstalled'', ''compile'']" and tb' = "''tb.v''" and args' = None
           and es = "Error ''vvp crashed''"
           and wsc' = "[''isInstalled'', ''compile'', ''simulate'']"
           and my = "\<lparr>tools = [(''yosys'', raisingSynthesize)], preferredTool = None\<rparr>"
           and oy = None and wy = "[]" and yt = raisingSynthesize
           and wya = "[''isInstalled'']" and d = "[''top.v'']" and k = "''clk.sdc''"
           and ey = "Error ''yosys crashed''" and wyb = "[''isInstalled'', ''synthesize'']"]
    by simp
qed

text \<open>
  Claim C2 as stated fails: the selected lint adapter is installed and its \<^verbatim>\<open>lint\<close> rejects
  with \<^verbatim>\<open>null\<close>; the handler's read of \<^verbatim>\<open>error.message\<close> throws, and \<^verbatim>\<open>LintManager.lint\<close>
  rejects with that \<^verbatim>\<open>TypeError\<close> where the claim has it return a failure value.
\<close>

theorem lint_rejecting_with_null_counterexample:
  "LintManager_selectTool
     \<lparr>tools = [(''verilator'', raisingNullLint)], preferredTool = None\<rparr> None [] =
     (Inr (Some raisingNullLint), [''isInstalled''])
   \<and> lint_lint raisingNullLint [''top.v''] [''isInstalled''] =
       (Inl ThrownNull, [''isInstalled'', ''lint''])
   \<and> LintManager_lint \<lparr>tools = [(''verilator'', raisingNullLint)], preferredTool = None\<rparr>
        [''top.v''] None [] =
       (Inl (Error (''Cannot read properties of null (reading '' @ [CHR 0x27] @ ''message'' @
                    [CHR 0x27] @ '')'')),
        [''isInstalled'', ''lint''])"
  by (simp add: LintManager_lint_def LintManager_selectTool_def selectTool_def selectNamed_def
      io_bind_def io_catch_def io_return_def io_throw_def read_message_def
      type_error_reading_message_def raisingNullLint_def exampleLint_def logged_def)

subsection \<open>No tool, failed compile, enrichment\<close>

lemma spec_selectTool_nothing_installed: "spec_selectTool R {} a b = None"
  by (simp add: spec_selectTool_def spec_named_def spec_firstInstalled_def
      split: option.splits)

text \<open>
  Claim C6. A lint manager none of whose adapters is installed, and in particular one with
  an empty registry, returns for every file list and every override the value
  \<^verbatim>\<open>{success: false, warnings: [], lintErrors: [], stderr: 'No lint tool available'}\<close> and does
  not raise. (\<^verbatim>\<open>lintErrors\<close> is the field of the error diagnostics, which the specification
  calls \<^verbatim>\<open>errors\<close>.)
\<close>

theorem lint_no_tool_available:
  "(probes_answer lint_isInstalled (tools m) {} \<longrightarrow>
      fst (LintManager_lint m fs ov w) =
        Inr \<lparr>success = False, stdout = None, stderr = Some ''No lint tool available'',
             exitCode = None, errors = None, warnings = [], lintErrors = []\<rparr>)
   \<and> LintManager_lint newManager fs ov w =
        (Inr \<lparr>success = False, stdout = None, stderr = Some ''No lint tool available'',
              exitCode = None, errors = None, warnings = [], lintErrors = []\<rparr>, w)"
proof -
  have a: "fst (LintManager_lint m fs ov w) = Inr LintManager_noTool"
    if p: "probes_answer lint_isInstalled (tools m) {}"
  proof -
    have "fst (LintManager_selectTool m ov w) = Inr None"
      using selectTool_answer [OF p, of ov w]
      by (simp add: LintManager_selectTool_def spec_selectTool_nothing_installed)
    then obtain v where "LintManager_selectTool m ov w = (Inr None, v)"
      by (rule selected_split)
    then show ?thesis by (simp add: LintManager_lint_def io_bind_def io_return_def)
  qed
  have b: "LintManager_lint newManager fs ov w = (Inr LintManager_noTool, w)"
    by (simp add: LintManager_lint_def LintManager_selectTool_def selectTool_def
        selectNamed_def newManager_def map_has_def io_bind_def io_return_def
        split: option.splits)
  from a b show ?thesis by (simp add: LintManager_noTool_def)
qed

text \<open>An instance: the one registered adapter is not installed.\<close>

theorem lint_no_tool_available_witness:
  "probes_answer lint_isInstalled [(''verilator'', exampleLintAbsent)] {}
   \<and> fst (LintManager_lint \<lparr>tools = [(''verilator'', exampleLintAbsent)], preferredTool = None\<rparr>
        [''top.v''] (Some ''verilator'') []) =
       Inr \<lparr>success = False, stdout = None, stderr = Some ''No lint tool available'',
            exitCode = None, errors = None, warnings = [], lintErrors = []\<rparr>"
proof -
  have p: "probes_answer lint_isInstalled [(''verilator'', exampleLintAbsent)] {}"
    by (simp add: probes_answer_def exampleLintAbsent_def exampleLint_def logged_def)
  show ?thesis
    using p lint_no_tool_available
      [where m = "\<lparr>tools = [(''verilator'', exampleLintAbsent)], preferredTool = None\<rparr>"
         and fs = "[''top.v'']" and ov = "Some ''verilator''" and w = "[]"]
    by simp
qed

lemma selectNamed_map:
  assumes "\<And>t. probe (g t) = probe t"
  shows "selectNamed probe (map (\<lambda>(n, t). (n, g t)) R) name w =
           map_prod (map_sum id (map_option g)) id (selectNamed probe R name w)"
proof -
  have m: "map_of (map (\<lambda>(n, t). (n, g t)) R) n = map_option g (map_of R n)" for n
    by (simp add: map_of_map)
  show ?thesis
    by (simp add: selectNamed_def map_has_def m io_return_def io_bind_def assms
        split: option.splits prod.splits sum.splits)
qed

lemma selectFirstInstalled_map:
  assumes "\<And>t. probe (g t) = probe t"
  shows "selectFirstInstalled probe (map (\<lambda>(n, t). (n, g t)) R) w =
           map_prod (map_sum id (map_option g)) id (selectFirstInstalled probe R w)"
proof (induction R arbitrary: w)
  case Nil
  show ?case by simp
next
  case (Cons a R)
  obtain n t where a: "a = (n, t)" by (cases a)
  show ?case using a Cons.IH
    by (simp add: assms split: prod.splits sum.splits)
qed

lemma selectTool_map:
  assumes "\<And>t. probe (g t) = probe t"
  shows "selectTool probe (m\<lparr>tools := map (\<lambda>(n, t). (n, g t)) (tools m)\<rparr>) override w =
           map_prod (map_sum id (map_option g)) id (selectTool probe m override w)"
proof -
  have n: "selectNamed probe (map (\<lambda>(n, t). (n, g t)) (tools m)) name v =
           map_prod (map_sum id (map_option g)) id (selectNamed probe (tools m) name v)"
    for name v using assms by (rule selectNamed_map)
  have f: "selectFirstInstalled probe (map (\<lambda>(n, t). (n, g t)) (tools m)) v =
           map_prod (map_sum id (map_option g)) id (selectFirstInstalled probe (tools m) v)"
    for v using assms by (rule selectFirstInstalled_map)
  show ?thesis
    by (simp add: selectTool_def io_bind_def io_return_def n f
        split: option.splits prod.splits sum.splits)
qed

lemma selectTool_withSimulate:
  assumes "SimulationManager_selectTool m ov w = (Inr (Some tool), v)"
  shows "SimulationManager_selectTool (withSimulate f m) ov w =
           (Inr (Some (tool\<lparr>sim_simulate := f\<rparr>)), v)"
proof -
  have "selectTool sim_isInstalled
          (m\<lparr>tools := map (\<lambda>(n, t). (n, t\<lparr>sim_simulate := f\<rparr>)) (tools m)\<rparr>) ov w =
        map_prod (map_sum id (map_option (\<lambda>t. t\<lparr>sim_simulate := f\<rparr>))) id
          (selectTool sim_isInstalled m ov w)"
    by (rule selectTool_map) simp
  with assms show ?thesis
    by (simp add: SimulationManager_selectTool_def withSimulate_def)
qed

text \<open>
  Claim C3. When the compile step of the selected simulation adapter returns
  \<^verbatim>\<open>success: false\<close>, the manager's \<^verbatim>\<open>simulate\<close> returns the failure value that carries
  the \<^verbatim>\<open>errors\<close> and \<^verbatim>\<open>stderr\<close> of the compile step, in the world the compile step left
  behind, and never calls the simulate method of an adapter: the outcome is the same
  whatever that method is.
\<close>

theorem simulate_stops_at_failed_compile:
  assumes "SimulationManager_selectTool m ov w = (Inr (Some tool), wa)"
    and "sim_compile tool fs wa = (Inr c, wb)"
    and "\<not> success c"
  shows "SimulationManager_simulate m fs tb args ov w =
           (Inr \<lparr>success = False, stdout = None, stderr = stderr c, exitCode = None,
                 errors = errors c, passed = False, coverage = None, waveform = None\<rparr>, wb)
       \<and> (\<forall>f. SimulationManager_simulate (withSimulate f m) fs tb args ov w =
                SimulationManager_simulate m fs tb args ov w)"
proof -
  have a: "SimulationManager_simulate m fs tb args ov w =
             (Inr (SimulationManager_compileFailed c), wb)"
    using assms by (rule SimulationManager_compile_fails)
  have b: "SimulationManager_simulate (withSimulate f m) fs tb args ov w =
             (Inr (SimulationManager_compileFailed c), wb)" for f
  proof (rule SimulationManager_compile_fails)
    show "SimulationManager_selectTool (withSimulate f m) ov w =
            (Inr (Some (tool\<lparr>sim_simulate := f\<rparr>)), wa)"
      using assms(1) by (rule selectTool_withSimulate)
    show "sim_compile (tool\<lparr>sim_simulate := f\<rparr>) fs wa = (Inr c, wb)"
      using assms(2) by simp
    show "\<not> success c" by (rule assms(3))
  qed
  from a b show ?thesis by (simp add: SimulationManager_compileFailed_def)
qed

text \<open>
  An instance, on adapters that log their calls: after the probe and the compile step no
  further method has been called.
\<close>

theorem simulate_stops_at_failed_compile_witness:
  "SimulationManager_selectTool \<lparr>tools = [(''iverilog'', failingCompile)], preferredTool = None\<rparr>
     None [] = (Inr (Some failingCompile), [''isInstalled''])
   \<and> sim_compile failingCompile [''top.v''] [''isInstalled''] =
       (Inr exampleCompileFailed, [''isInstalled'', ''compile''])
   \<and> \<not> success exampleCompileFailed
   \<and> SimulationManager_simulate
        \<lparr>tools = [(''iverilog'', failingCompile)], preferredTool = None\<rparr> [''top.v'']
        ''tb.v'' None None [] =
       (Inr \<lparr>success = False, stdout = None, stderr = Some ''top.v:3: syntax error'',
             exitCode = None,
             errors = Some [''Command failed: iverilog -o a.out top.v''], passed = False,
             coverage = None, waveform = None\<rparr>,
        [''isInstalled'', ''compile''])"
proof -
  have s: "SimulationManager_selectTool
      \<lparr>tools = [(''iverilog'', failingCompile)], preferredTool = None\<rparr>
      None [] = (Inr (Some failingCompile), [''isInstalled''])"
    by (simp add: SimulationManager_selectTool_def selectTool_def selectNamed_def io_bind_def
        io_return_def failingCompile_def exampleSim_def logged_def)
  have c: "sim_compile failingCompile [''top.v''] [''isInstalled''] =
       (Inr exampleCompileFailed, [''isInstalled'', ''compile''])"
    by (simp add: failingCompile_def exampleSim_def logged_def)
  have n: "\<not> success exampleCompileFailed" by (simp add: exampleCompileFailed_def)
  show ?thesis
    using s c n simulate_stops_at_failed_compile [OF s c n, of "''tb.v''" None]
    by (simp add: exampleCompileFailed_def)
qed

lemma SynthesisManager_synthesize_enriches:
  assumes "SynthesisManager_selectTool m ov w = (Inr (Some tool), wa)"
    and "syn_synthesize tool d k wa = (Inr res, wb)"
    and "success res" and "netlist res = Some nl" and "nl \<noteq> []"
  shows "SynthesisManager_synthesize m d k ov w = SynthesisManager_enrich tool res nl wb"
proof -
  have r: "\<exists>r. fst (SynthesisManager_enrich tool res nl wb) = Inr r"
    unfolding SynthesisManager_enrich_def
    by (rule io_catch_returns) (simp add: io_return_def)
  then obtain r v where e: "SynthesisManager_enrich tool res nl wb = (Inr r, v)"
    by (cases "SynthesisManager_enrich tool res nl wb") auto
  show ?thesis
    using assms e
    by (simp add: SynthesisManager_synthesize_def io_bind_def io_catch_def or_empty_def)
qed

text \<open>
  Claim C5, as amended. After a core synthesis step that returned \<^verbatim>\<open>success: true\<close> with
  a non-empty netlist, a rejection of \<^verbatim>\<open>analyzeTiming\<close> or of \<^verbatim>\<open>estimatePPA\<close> does not
  reach the caller. When \<^verbatim>\<open>analyzeTiming\<close> rejects, the result of the core step is returned
  unchanged. When \<^verbatim>\<open>estimatePPA\<close> rejects, it is returned with \<^verbatim>\<open>timing\<close> assigned and
  \<^verbatim>\<open>ppa\<close> unchanged. In both cases \<^verbatim>\<open>success\<close> is true and the field concerned is not
  assigned: it is unset whenever the core step left it unset.
\<close>

theorem synthesize_enrichment_not_fatal:
  "(SynthesisManager_selectTool m ov w = (Inr (Some tool), wa) \<and>
    syn_synthesize tool d k wa = (Inr res, wb) \<and>
    success res \<and> netlist res = Some nl \<and> nl \<noteq> [] \<and>
    syn_analyzeTiming tool nl wb = (Inl e, wc) \<longrightarrow>
      SynthesisManager_synthesize m d k ov w = (Inr res, wc))
   \<and> (SynthesisManager_selectTool m' ov' w' = (Inr (Some tool'), wa') \<and>
       syn_synthesize tool' d' k' wa' = (Inr res', wb') \<and>
       success res' \<and> netlist res' = Some nl' \<and> nl' \<noteq> [] \<and>
       syn_analyzeTiming tool' nl' wb' = (Inr t, wc') \<and>
       syn_estimatePPA tool' nl' wc' = (Inl e', wd') \<longrightarrow>
      SynthesisManager_synthesize m' d' k' ov' w' = (Inr (res'\<lparr>timing := Some t\<rparr>), wd'))"
proof (intro conjI impI)
  assume h: "SynthesisManager_selectTool m ov w = (Inr (Some tool), wa) \<and>
    syn_synthesize tool d k wa = (Inr res, wb) \<and>
    success res \<and> netlist res = Some nl \<and> nl \<noteq> [] \<and>
    syn_analyzeTiming tool nl wb = (Inl e, wc)"
  then have "SynthesisManager_synthesize m d k ov w = SynthesisManager_enrich tool res nl wb"
    using SynthesisManager_synthesize_enriches [of m ov w tool wa d k res wb nl] by simp
  with h show "SynthesisManager_synthesize m d k ov w = (Inr res, wc)"
    by (simp add: SynthesisManager_enrich_def io_catch_def io_bind_def io_return_def)
next
  assume h: "SynthesisManager_selectTool m' ov' w' = (Inr (Some tool'), wa') \<and>
       syn_synthesize tool' d' k' wa' = (Inr res', wb') \<and>
       success res' \<and> netlist res' = Some nl' \<and> nl' \<noteq> [] \<and>
       syn_analyzeTiming tool' nl' wb' = (Inr t, wc') \<and>
       syn_estimatePPA tool' nl' wc' = (Inl e', wd')"
  then have "SynthesisManager_synthesize m' d' k' ov' w' =
               SynthesisManager_enrich tool' res' nl' wb'"
    using SynthesisManager_synthesize_enriches [of m' ov' w' tool' wa' d' k' res' wb' nl']
    by simp
  with h show "SynthesisManager_synthesize m' d' k' ov' w' = (Inr (res'\<lparr>timing := Some t\<rparr>), wd')"
    by (simp add: SynthesisManager_enrich_def io_catch_def io_bind_def io_return_def)
qed

lemma raisingTiming_selected:
  "SynthesisManager_selectTool \<lparr>tools = [(''yosys'', raisingTiming t)], preferredTool = None\<rparr>
     None [] = (Inr (Some (raisingTiming t)), [''isInstalled''])"
  by (simp add: SynthesisManager_selectTool_def selectTool_def selectNamed_def io_bind_def
      io_return_def raisingTiming_def exampleSynth_def logged_def)

lemma raisingTiming_synthesize:
  "syn_synthesize (raisingTiming t) d k [''isInstalled''] =
     (Inr (exampleSynthResult t), [''isInstalled'', ''synthesize''])"
  by (simp add: raisingTiming_def exampleSynth_def logged_def)

lemma raisingTiming_analyzeTiming:
  "syn_analyzeTiming (raisingTiming t) nl [''isInstalled'', ''synthesize''] =
     (Inl (Error ''sta failed''), [''isInstalled'', ''synthesize'', ''analyzeTiming''])"
  by (simp add: raisingTiming_def exampleSynth_def logged_def)

text \<open>
  An instance of each case: the timing analysis rejects; the timing analysis returns and
  the estimate rejects.
\<close>

theorem synthesize_enrichment_not_fatal_witness:
  "SynthesisManager_selectTool
     \<lparr>tools = [(''yosys'', raisingTiming None)], preferredTool = None\<rparr> None [] =
     (Inr (Some (raisingTiming None)), [''isInstalled''])
   \<and> syn_synthesize (raisingTiming None) [''top.v''] ''clk.sdc'' [''isInstalled''] =
       (Inr (exampleSynthResult None), [''isInstalled'', ''synthesize''])
   \<and> success (exampleSynthResult None)
   \<and> netlist (exampleSynthResult None) = Some ''top_synth.v''
   \<and> syn_analyzeTiming (raisingTiming None) ''top_synth.v'' [''isInstalled'', ''synthesize''] =
       (Inl (Error ''sta failed''), [''isInstalled'', ''synthesize'', ''analyzeTiming''])
   \<and> SynthesisManager_synthesize
        \<lparr>tools = [(''yosys'', raisingTiming None)], preferredTool = None\<rparr> [''top.v'']
        ''clk.sdc'' None [] =
       (Inr \<lparr>success = True, stdout = Some [], stderr = Some [], exitCode = None,
             errors = None, netlist = Some ''top_synth.v'', timing = None, ppa = None\<rparr>,
        [''isInstalled'', ''synthesize'', ''analyzeTiming''])
   \<and> SynthesisManager_selectTool
        \<lparr>tools = [(''yosys'', raisingPPA)], preferredTool = None\<rparr> None [] =
       (Inr (Some raisingPPA), [''isInstalled''])
   \<and> syn_synthesize raisingPPA [''top.v''] ''clk.sdc'' [''isInstalled''] =
       (Inr (exampleSynthResult None), [''isInstalled'', ''synthesize''])
   \<and> syn_analyzeTiming raisingPPA ''top_synth.v'' [''isInstalled'', ''synthesize''] =
       (Inr exampleTiming, [''isInstalled'', ''synthesize'', ''analyzeTiming''])
   \<and> syn_estimatePPA raisingPPA ''top_synth.v''
        [''isInstalled'', ''synthesize'', ''analyzeTiming''] =
       (Inl (Error ''report failed''),
        [''isInstalled'', ''synthesize'', ''analyzeTiming'', ''estimatePPA''])
   \<and> SynthesisManager_synthesize
        \<lparr>tools = [(''yosys'', raisingPPA)], preferredTool = None\<rparr> [''top.v'']
        ''clk.sdc'' None [] =
       (Inr \<lparr>success = True, stdout = Some [], stderr = Some [], exitCode = None,
             errors = None, netlist = Some ''top_synth.v'', timing = Some exampleTiming,
             ppa = None\<rparr>,
        [''isInstalled'', ''synthesize'', ''analyzeTiming'', ''estimatePPA''])"
proof -
  have s: "success (exampleSynthResult None)"
    and n: "netlist (exampleSynthResult None) = Some ''top_synth.v''"
    by (simp_all add: exampleSynthResult_def)
  have ps: "SynthesisManager_selectTool
        \<lparr>tools = [(''yosys'', raisingPPA)], preferredTool = None\<rparr> None [] =
       (Inr (Some raisingPPA), [''isInstalled''])"
    by (simp add: SynthesisManager_selectTool_def selectTool_def selectNamed_def io_bind_def
        io_return_def raisingPPA_def exampleSynth_def logged_def)
  have py: "syn_synthesize raisingPPA [''top.v''] ''clk.sdc'' [''isInstalled''] =
       (Inr (exampleSynthResult None), [''isInstalled'', ''synthesize''])"
    by (simp add: raisingPPA_def exampleSynth_def logged_def)
  have pa: "syn_analyzeTiming raisingPPA ''top_synth.v'' [''isInstalled'', ''synthesize''] =
       (Inr exampleTiming, [''isInstalled'', ''synthesize'', ''analyzeTiming''])"
    by (simp add: raisingPPA_def exampleSynth_def logged_def)
  have pe: "syn_estimatePPA raisingPPA ''top_synth.v''
        [''isInstalled'', ''synthesize'', ''analyzeTiming''] =
       (Inl (Error ''report failed''),
        [''isInstalled'', ''synthesize'', ''analyzeTiming'', ''estimatePPA''])"
    by (simp add: raisingPPA_def exampleSynth_def logged_def)
  show ?thesis
    using s n ps py pa pe raisingTiming_selected [of None]
      raisingTiming_synthesize [of None "[''top.v'']" "''clk.sdc''"]
      raisingTiming_analyzeTiming [of None "''top_synth.v''"]
      synthesize_enrichment_not_fatal
        [where m = "\<lparr>tools = [(''yosys'', raisingTiming None)], preferredTool = None\<rparr>"
           and ov = None and w = "[]" and tool = "raisingTiming None"
           and wa = "[''isInstalled'']" and d = "[''top.v'']" and k = "''clk.sdc''"
           and res = "exampleSynthResult None" and wb = "[''isInstalled'', ''synthesize'']"
           and nl = "''top_synth.v''" and e = "Error ''sta failed''"
           and wc = "[''isInstalled'', ''synthesize'', ''analyzeTiming'']"
           and m' = "\<lparr>tools = [(''yosys'', raisingPPA)], preferredTool = None\<rparr>"
           and ov' = None and w' = "[]" and tool' = raisingPPA
           and wa' = "[''isInstalled'']" and d' = "[''top.v'']" and k' = "''clk.sdc''"
           and res' = "exampleSynthResult None" and wb' = "[''isInstalled'', ''synthesize'']"
           and nl' = "''top_synth.v''" and t = exampleTiming
           and wc' = "[''isInstalled'', ''synthesize'', ''analyzeTiming'']"
           and e' = "Error ''report failed''"
           and wd' = "[''isInstalled'', ''synthesize'', ''analyzeTiming'', ''estimatePPA'']"]
    by (simp add: exampleSynthResult_def)
qed

text \<open>
  Claim C5 as stated fails where the core step itself returned a \<^verbatim>\<open>timing\<close>: the timing
  analysis rejects, and the final result has \<^verbatim>\<open>timing\<close> set, to the value of the core step.
\<close>

theorem synthesize_timing_kept_counterexample:
  "SynthesisManager_selectTool
     \<lparr>tools = [(''yosys'', raisingTiming (Some exampleTiming))], preferredTool = None\<rparr>
     None [] = (Inr (Some (raisingTiming (Some exampleTiming))), [''isInstalled''])
   \<and> syn_synthesize (raisingTiming (Some exampleTiming)) [''top.v''] ''clk.sdc''
        [''isInstalled''] =
       (Inr (exampleSynthResult (Some exampleTiming)), [''isInstalled'', ''synthesize''])
   \<and> success (exampleSynthResult (Some exampleTiming))
   \<and> netlist (exampleSynthResult (Some exampleTiming)) = Some ''top_synth.v''
   \<and> syn_analyzeTiming (raisingTiming (Some exampleTiming)) ''top_synth.v''
        [''isInstalled'', ''synthesize''] =
       (Inl (Error ''sta failed''), [''isInstalled'', ''synthesize'', ''analyzeTiming''])
   \<and> SynthesisManager_synthesize
        \<lparr>tools = [(''yosys'', raisingTiming (Some exampleTiming))], preferredTool = None\<rparr>
        [''top.v''] ''clk.sdc'' None [] =
       (Inr (exampleSynthResult (Some exampleTiming)),
        [''isInstalled'', ''synthesize'', ''analyzeTiming''])
   \<and> timing (exampleSynthResult (Some exampleTiming)) = Some exampleTiming
   \<and> timing (exampleSynthResult (Some exampleTiming)) \<noteq> None"
proof -
  have r: "SynthesisManager_synthesize
        \<lparr>tools = [(''yosys'', raisingTiming (Some exampleTiming))], preferredTool = None\<rparr>
        [''top.v''] ''clk.sdc'' None [] =
       (Inr (exampleSynthResult (Some exampleTiming)),
        [''isInstalled'', ''synthesize'', ''analyzeTiming''])"
    by (simp add: SynthesisManager_synthesize_def SynthesisManager_enrich_def
        raisingTiming_selected io_bind_def io_catch_def io_return_def raisingTiming_synthesize
        raisingTiming_analyzeTiming exampleSynthResult_def or_empty_def)
  show ?thesis
    using r raisingTiming_selected [of "Some exampleTiming"]
      raisingTiming_synthesize [of "Some exampleTiming" "[''top.v'']" "''clk.sdc''"]
      raisingTiming_analyzeTiming [of "Some exampleTiming" "''top_synth.v''"]
    by (simp add: exampleSynthResult_def)
qed

subsection \<open>The matcher on literal patterns\<close>

lemma lit_ci_Cons: "lit_ci (c # cs) = Seq (Chr (LitCI c)) (lit_ci cs)"
  by (simp add: lit_ci_def seqs_def)

lemma lit_ci_Nil: "lit_ci [] = Eps"
  by (simp add: lit_ci_def seqs_def)

lemma rx_match_lit_ci:
  "rx_match inp (lit_ci s) (rest, caps) =
     (if starts_with (toLowerCase rest) (toLowerCase s) then [(drop (length s) rest, caps)]
      else [])"
proof (induction s arbitrary: rest)
  case Nil
  show ?case by (simp add: lit_ci_Nil starts_with_def toLowerCase_def)
next
  case (Cons c cs)
  show ?case
  proof (cases rest)
    case Nil
    then show ?thesis by (simp add: lit_ci_Cons starts_with_def toLowerCase_def)
  next
    case (Cons x xs)
    then show ?thesis
      using Cons.IH [of xs]
      by (simp add: lit_ci_Cons starts_with_def toLowerCase_def)
  qed
qed

lemma rx_exec_from_lit_ci:
  "(rx_exec_from inp (lit_ci s) rest \<noteq> None) =
     string_includes (toLowerCase rest) (toLowerCase s)"
proof (induction rest)
  case Nil
  show ?case by (simp add: rx_match_lit_ci starts_with_def toLowerCase_def)
next
  case (Cons x xs)
  have "toLowerCase (x # xs) = lower_char x # toLowerCase xs" by (simp add: toLowerCase_def)
  with Cons show ?case by (simp add: rx_match_lit_ci)
qed

text \<open>
  A literal pattern under the flag \<^verbatim>\<open>i\<close> tests for a substring, letter case apart.
\<close>

lemma rx_test_lit_ci:
  "rx_test (lit_ci s) out = string_includes (toLowerCase out) (toLowerCase s)"
  using rx_exec_from_lit_ci [of out s out] by (simp add: rx_test_def rx_exec_def)

lemma failPatterns_substrings:
  "list_ex (\<lambda>pattern. rx_test pattern out) IcarusSim_failPatterns =
     list_ex (string_includes (toLowerCase out))
       [''test failed'', ''error:'', ''assertion failed'', ''*** fail ***'']"
  "list_ex (\<lambda>pattern. rx_test pattern out) VerilatorSim_failPatterns =
     list_ex (string_includes (toLowerCase out))
       [''test failed'', ''error:'', ''assertion failed'', ''*** fail ***'']"
proof -
  have l: "toLowerCase ''test failed'' = ''test failed''" "toLowerCase ''error:'' = ''error:''"
    "toLowerCase ''assertion failed'' = ''assertion failed''"
    "toLowerCase ''*** FAIL ***'' = ''*** fail ***''"
    by code_simp+
  show "list_ex (\<lambda>pattern. rx_test pattern out) IcarusSim_failPatterns =
     list_ex (string_includes (toLowerCase out))
       [''test failed'', ''error:'', ''assertion failed'', ''*** fail ***'']"
    by (simp add: IcarusSim_failPatterns_def rx_test_lit_ci l)
  show "list_ex (\<lambda>pattern. rx_test pattern out) VerilatorSim_failPatterns =
     list_ex (string_includes (toLowerCase out))
       [''test failed'', ''error:'', ''assertion failed'', ''*** fail ***'']"
    by (simp add: VerilatorSim_failPatterns_def rx_test_lit_ci l)
qed

subsection \<open>Simulation adapters\<close>

text \<open>
  Claim C4. An output that matches a failure pattern is not passed, whatever pass patterns
  it matches too: this holds of \<^verbatim>\<open>checkSimulationPassed\<close> in both simulation adapters, and
  so of the \<^verbatim>\<open>passed\<close> field of a run of \<^verbatim>\<open>vvp\<close> that printed such an output.
\<close>

theorem failure_patterns_take_precedence:
  "(list_ex (\<lambda>pattern. rx_test pattern out) IcarusSim_failPatterns \<longrightarrow>
      \<not> IcarusSim_checkSimulationPassed out)
   \<and> (list_ex (\<lambda>pattern. rx_test pattern out') VerilatorSim_failPatterns \<longrightarrow>
      \<not> VerilatorSim_checkSimulationPassed out')
   \<and> (exec (''vvp '' @ exe @ '' '' @ join '' '' (args_or_empty args)) = Resolved out'' err \<and>
       list_ex (\<lambda>pattern. rx_test pattern out'') IcarusSim_failPatterns \<longrightarrow>
      \<not> passed (IcarusSim_vvp exec exe args))"
  by (simp add: IcarusSim_checkSimulationPassed_def VerilatorSim_checkSimulationPassed_def
      IcarusSim_vvp_def)

lemma exampleMixedOutput_fails_Icarus:
  "list_ex (\<lambda>pattern. rx_test pattern exampleMixedOutput) IcarusSim_failPatterns"
  by code_simp

lemma exampleMixedOutput_passes_Icarus:
  "list_ex (\<lambda>pattern. rx_test pattern exampleMixedOutput) IcarusSim_passPatterns"
  by code_simp

lemma exampleMixedOutput_fails_Verilator:
  "list_ex (\<lambda>pattern. rx_test pattern exampleMixedOutput) VerilatorSim_failPatterns"
  by code_simp

lemma exampleMixedOutput_passes_Verilator:
  "list_ex (\<lambda>pattern. rx_test pattern exampleMixedOutput) VerilatorSim_passPatterns"
  by code_simp

text \<open>An instance: the output matches a pattern of each list and is not passed.\<close>

theorem failure_patterns_take_precedence_witness:
  "list_ex (\<lambda>pattern. rx_test pattern exampleMixedOutput) IcarusSim_passPatterns
   \<and> list_ex (\<lambda>pattern. rx_test pattern exampleMixedOutput) IcarusSim_failPatterns
   \<and> \<not> IcarusSim_checkSimulationPassed exampleMixedOutput
   \<and> list_ex (\<lambda>pattern. rx_test pattern exampleMixedOutput) VerilatorSim_passPatterns
   \<and> list_ex (\<lambda>pattern. rx_test pattern exampleMixedOutput) VerilatorSim_failPatterns
   \<and> \<not> VerilatorSim_checkSimulationPassed exampleMixedOutput
   \<and> exampleMixedRun (''vvp '' @ ''a.out'' @ '' '' @ join '' '' (args_or_empty None)) =
       Resolved exampleMixedOutput []
   \<and> \<not> passed (IcarusSim_vvp exampleMixedRun ''a.out'' None)"
  using failure_patterns_take_precedence
      [where out = exampleMixedOutput and out' = exampleMixedOutput
         and out'' = exampleMixedOutput and exec = exampleMixedRun and exe = "''a.out''"
         and args = None and err = "[]"]
    exampleMixedOutput_fails_Icarus exampleMixedOutput_passes_Icarus
    exampleMixedOutput_fails_Verilator exampleMixedOutput_passes_Verilator
  by (simp add: exampleMixedRun_def)

text \<open>
  Claim C9. Pass/fail detection answers \<^verbatim>\<open>false\<close> exactly when a failure pattern matches
  the output: in both simulation adapters \<^verbatim>\<open>checkSimulationPassed\<close> is the function
  ``no failure pattern matches'', in which the pass patterns have no part. In terms of the
  text: the output is passed exactly when, letter case apart, it holds none of the four
  failure markers.
\<close>

theorem checkSimulationPassed_is_no_failure:
  "IcarusSim_checkSimulationPassed out =
     (\<not> list_ex (\<lambda>pattern. rx_test pattern out) IcarusSim_failPatterns)
   \<and> VerilatorSim_checkSimulationPassed out =
     (\<not> list_ex (\<lambda>pattern. rx_test pattern out) VerilatorSim_failPatterns)
   \<and> IcarusSim_checkSimulationPassed out =
     (\<not> list_ex (string_includes (toLowerCase out))
          [''test failed'', ''error:'', ''assertion failed'', ''*** fail ***''])
   \<and> VerilatorSim_checkSimulationPassed out =
     (\<not> list_ex (string_includes (toLowerCase out))
          [''test failed'', ''error:'', ''assertion failed'', ''*** fail ***''])"
proof -
  have i: "IcarusSim_checkSimulationPassed out =
     (\<not> list_ex (\<lambda>pattern. rx_test pattern out) IcarusSim_failPatterns)"
    by (simp add: IcarusSim_checkSimulationPassed_def)
  have v: "VerilatorSim_checkSimulationPassed out =
     (\<not> list_ex (\<lambda>pattern. rx_test pattern out) VerilatorSim_failPatterns)"
    by (simp add: VerilatorSim_checkSimulationPassed_def)
  from i v show ?thesis by (simp only: failPatterns_substrings simp_thms)
qed

lemma IcarusSim_vvp_not_notCompiled: "IcarusSim_vvp exec exe args \<noteq> IcarusSim_notCompiled"
proof
  assume "IcarusSim_vvp exec exe args = IcarusSim_notCompiled"
  then have "stdout (IcarusSim_vvp exec exe args) = stdout IcarusSim_notCompiled" by simp
  then show False
    by (simp add: IcarusSim_vvp_def IcarusSim_notCompiled_def Let_def split: exec_outcome.splits)
qed

text \<open>
  Claim C8. \<^verbatim>\<open>IcarusSim.compile\<close> assigns \<^verbatim>\<open>this.executable\<close> before it runs the compiler:
  after any compile call, whatever the compiler did, the field holds \<^verbatim>\<open>a.out\<close>, and a
  following \<^verbatim>\<open>simulate\<close> on the same object passes the guard and runs the command
  \<^verbatim>\<open>vvp a.out\<close> with the arguments: its result is made of what that command printed when
  the command succeeds, and of what its failure carries when it fails, and is not the
  ``Design not compiled'' failure. The guard answers only on an object on which compile was
  never called.
\<close>

theorem IcarusSim_compile_always_arms_simulate:
  "this_executable (snd (IcarusSim_compile exec fs this)) = Some ''a.out''
   \<and> IcarusSim_simulate exec' tb args (snd (IcarusSim_compile exec fs this)) =
       (IcarusSim_vvp exec' ''a.out'' args, snd (IcarusSim_compile exec fs this))
   \<and> fst (IcarusSim_simulate exec' tb args (snd (IcarusSim_compile exec fs this))) \<noteq>
       IcarusSim_notCompiled
   \<and> IcarusSim_simulate exec' tb args IcarusSim_new = (IcarusSim_notCompiled, IcarusSim_new)
   \<and> (run (''vvp a.out '' @ join '' '' (args_or_empty args)) = Resolved out err \<longrightarrow>
        fst (IcarusSim_simulate run tb args (snd (IcarusSim_compile exec fs this))) =
          \<lparr>success = True, stdout = Some out, stderr = Some err, exitCode = None,
           errors = None, passed = IcarusSim_checkSimulationPassed out, coverage = None,
           waveform = Some ''dump.vcd''\<rparr>)
   \<and> (run' (''vvp a.out '' @ join '' '' (args_or_empty args)) = Rejected e \<longrightarrow>
        fst (IcarusSim_simulate run' tb args (snd (IcarusSim_compile exec fs this))) =
          \<lparr>success = False, stdout = Some (or_empty (error_stdout e)),
           stderr = Some (if or_empty (error_stderr e) = [] then error_text e
                          else or_empty (error_stderr e)),
           exitCode = None, errors = None, passed = False, coverage = None,
           waveform = None\<rparr>)"
proof -
  have a: "this_executable (snd (IcarusSim_compile exec fs this)) = Some ''a.out''"
    by (simp add: IcarusSim_compile_def Let_def)
  then have b: "IcarusSim_simulate x tb args (snd (IcarusSim_compile exec fs this)) =
       (IcarusSim_vvp x ''a.out'' args, snd (IcarusSim_compile exec fs this))" for x
    by (simp add: IcarusSim_simulate_def)
  have c: "IcarusSim_simulate exec' tb args IcarusSim_new = (IcarusSim_notCompiled, IcarusSim_new)"
    by (simp add: IcarusSim_simulate_def IcarusSim_new_def)
  have d: "IcarusSim_vvp run ''a.out'' args =
          \<lparr>success = True, stdout = Some out, stderr = Some err, exitCode = None,
           errors = None, passed = IcarusSim_checkSimulationPassed out, coverage = None,
           waveform = Some ''dump.vcd''\<rparr>"
    if "run (''vvp a.out '' @ join '' '' (args_or_empty args)) = Resolved out err"
    using that by (simp add: IcarusSim_vvp_def Let_def)
  have e: "IcarusSim_vvp run' ''a.out'' args =
          \<lparr>success = False, stdout = Some (or_empty (error_stdout e)),
           stderr = Some (if or_empty (error_stderr e) = [] then error_text e
                          else or_empty (error_stderr e)),
           exitCode = None, errors = None, passed = False, coverage = None,
           waveform = None\<rparr>"
    if "run' (''vvp a.out '' @ join '' '' (args_or_empty args)) = Rejected e"
    using that
    by (simp add: IcarusSim_vvp_def Let_def stderr_or_message_def or_empty_def
        split: option.splits)
  from a b [of exec'] b [of run] b [of run'] c d e
    IcarusSim_vvp_not_notCompiled [of exec' "''a.out''" args]
  show ?thesis by simp
qed

text \<open>
  An instance: the compiler rejects the source and compile returns \<^verbatim>\<open>success: false\<close>; the
  following simulate runs \<^verbatim>\<open>vvp a.out\<close> all the same, and returns the output of the run, or
  the failure of the run.
\<close>

theorem IcarusSim_compile_always_arms_simulate_witness:
  "\<not> success (fst (IcarusSim_compile exampleFailedRun [''top.v''] IcarusSim_new))
   \<and> stderr (fst (IcarusSim_compile exampleFailedRun [''top.v''] IcarusSim_new)) =
       Some ''top.v:3: syntax error''
   \<and> exampleMixedRun (''vvp a.out '' @ join '' '' (args_or_empty None)) =
       Resolved exampleMixedOutput []
   \<and> fst (IcarusSim_simulate exampleMixedRun ''tb.v'' None
            (snd (IcarusSim_compile exampleFailedRun [''top.v''] IcarusSim_new))) =
       \<lparr>success = True, stdout = Some exampleMixedOutput, stderr = Some [], exitCode = None,
        errors = None, passed = False, coverage = None, waveform = Some ''dump.vcd''\<rparr>
   \<and> exampleFailedRun (''vvp a.out '' @ join '' '' (args_or_empty None)) =
       Rejected \<lparr>error_stdout = Some [], error_stderr = Some ''top.v:3: syntax error'',
                 error_code = Some (CodeNum 2), error_text = ''Command failed: vvp a.out ''\<rparr>
   \<and> fst (IcarusSim_simulate exampleFailedRun ''tb.v'' None
            (snd (IcarusSim_compile exampleFailedRun [''top.v''] IcarusSim_new))) =
       \<lparr>success = False, stdout = Some [], stderr = Some ''top.v:3: syntax error'',
        exitCode = None, errors = None, passed = False, coverage = None, waveform = None\<rparr>"
proof -
  have f: "\<not> IcarusSim_checkSimulationPassed exampleMixedOutput"
    using exampleMixedOutput_fails_Icarus by (simp add: IcarusSim_checkSimulationPassed_def)
  have c: "\<not> success (fst (IcarusSim_compile exampleFailedRun [''top.v''] IcarusSim_new))"
    "stderr (fst (IcarusSim_compile exampleFailedRun [''top.v''] IcarusSim_new)) =
       Some ''top.v:3: syntax error''"
    by (simp_all add: IcarusSim_compile_def IcarusSim_run_def IcarusSim_new_def
        exampleFailedRun_def Let_def or_empty_def)
  have r: "exampleMixedRun (''vvp a.out '' @ join '' '' (args_or_empty None)) =
       Resolved exampleMixedOutput []"
    by (simp add: exampleMixedRun_def)
  have j: "exampleFailedRun (''vvp a.out '' @ join '' '' (args_or_empty None)) =
       Rejected \<lparr>error_stdout = Some [], error_stderr = Some ''top.v:3: syntax error'',
                 error_code = Some (CodeNum 2), error_text = ''Command failed: vvp a.out ''\<rparr>"
    by (simp add: exampleFailedRun_def args_or_empty_def)
  have t: "fst (IcarusSim_simulate exampleMixedRun ''tb.v'' None
            (snd (IcarusSim_compile exampleFailedRun [''top.v''] IcarusSim_new))) =
          \<lparr>success = True, stdout = Some exampleMixedOutput, stderr = Some [], exitCode = None,
           errors = None, passed = IcarusSim_checkSimulationPassed exampleMixedOutput,
           coverage = None, waveform = Some ''dump.vcd''\<rparr>
     \<and> fst (IcarusSim_simulate exampleFailedRun ''tb.v'' None
            (snd (IcarusSim_compile exampleFailedRun [''top.v''] IcarusSim_new))) =
          \<lparr>success = False,
           stdout = Some (or_empty (error_stdout
             \<lparr>error_stdout = Some [], error_stderr = Some ''top.v:3: syntax error'',
              error_code = Some (CodeNum 2), error_text = ''Command failed: vvp a.out ''\<rparr>)),
           stderr = Some (if or_empty (error_stderr
             \<lparr>error_stdout = Some [], error_stderr = Some ''top.v:3: syntax error'',
              error_code = Some (CodeNum 2), error_text = ''Command failed: vvp a.out ''\<rparr>) = []
             then error_text
             \<lparr>error_stdout = Some [], error_stderr = Some ''top.v:3: syntax error'',
              error_code = Some (CodeNum 2), error_text = ''Command failed: vvp a.out ''\<rparr>
             else or_empty (error_stderr
             \<lparr>error_stdout = Some [], error_stderr = Some ''top.v:3: syntax error'',
              error_code = Some (CodeNum 2), error_text = ''Command failed: vvp a.out ''\<rparr>)),
           exitCode = None, errors = None, passed = False, coverage = None,
           waveform = None\<rparr>"
    using r j
      IcarusSim_compile_always_arms_simulate
        [where exec = exampleFailedRun and fs = "[''top.v'']" and this = IcarusSim_new
           and exec' = exampleMixedRun and tb = "''tb.v''" and args = None
           and run = exampleMixedRun and out = exampleMixedOutput and err = "[]"
           and run' = exampleFailedRun
           and e = "\<lparr>error_stdout = Some [], error_stderr = Some ''top.v:3: syntax error'',
                     error_code = Some (CodeNum 2),
                     error_text = ''Command failed: vvp a.out ''\<rparr>"]
    by blast
  have u: "fst (IcarusSim_simulate exampleMixedRun ''tb.v'' None
            (snd (IcarusSim_compile exampleFailedRun [''top.v''] IcarusSim_new))) =
       \<lparr>success = True, stdout = Some exampleMixedOutput, stderr = Some [], exitCode = None,
        errors = None, passed = False, coverage = None, waveform = Some ''dump.vcd''\<rparr>"
    and v: "fst (IcarusSim_simulate exampleFailedRun ''tb.v'' None
            (snd (IcarusSim_compile exampleFailedRun [''top.v''] IcarusSim_new))) =
       \<lparr>success = False, stdout = Some [], stderr = Some ''top.v:3: syntax error'',
        exitCode = None, errors = None, passed = False, coverage = None, waveform = None\<rparr>"
    using t f by (simp_all add: or_empty_def)
  from c r j u v show ?thesis by blast
qed

subsection \<open>Lint adapters\<close>

lemma foldl_keeps:
  assumes "\<And>row a. P a \<Longrightarrow> P (step row a)" and "P a"
  shows "P (foldl (\<lambda>a row. step row a) a rows)"
  using assms(2) by (induction rows arbitrary: a) (simp_all add: assms(1))

lemma foldl_skips:
  assumes "\<forall>row \<in> set rows. step row a = a"
  shows "foldl (\<lambda>a row. step row a) a rows = a"
  using assms by (induction rows) simp_all

lemma foldl_counts:
  assumes "\<And>row a. count (step row a) = count a + (if hit row then 1 else (0::nat))"
  shows "count (foldl (\<lambda>a row. step row a) a rows) = count a + length (filter hit rows)"
  by (induction rows arbitrary: a) (simp_all add: assms)

lemma VerilatorLint_parseLine_sorted:
  "sorted_by_severity a \<Longrightarrow> sorted_by_severity (VerilatorLint_parseLine row a)"
  by (simp add: VerilatorLint_parseLine_def sorted_by_severity_def Let_def split: option.splits)

lemma SlangLint_parseLine_sorted:
  "sorted_by_severity a \<Longrightarrow> sorted_by_severity (SlangLint_parseLine row a)"
  by (simp add: SlangLint_parseLine_def sorted_by_severity_def Let_def split: option.splits)

lemma VeribleLint_parseLine_sorted:
  "sorted_by_severity a \<Longrightarrow> sorted_by_severity (VeribleLint_parseLine row a)"
  by (simp add: VeribleLint_parseLine_def sorted_by_severity_def Let_def split: option.splits)

lemma sorted_by_severity_errors:
  assumes "sorted_by_severity acc"
  shows "filter (\<lambda>d. severity d = SevError) (fst acc @ snd acc) = snd acc"
proof -
  from assms have "filter (\<lambda>d. severity d = SevError) (fst acc) = []"
    by (simp add: sorted_by_severity_def list_all_iff filter_empty_conv)
  moreover from assms have "filter (\<lambda>d. severity d = SevError) (snd acc) = snd acc"
    by (simp add: sorted_by_severity_def list_all_iff)
  ultimately show ?thesis by simp
qed

lemma VerilatorLint_parseLine_count:
  "length (fst (VerilatorLint_parseLine row a)) + length (snd (VerilatorLint_parseLine row a)) =
     length (fst a) + length (snd a) +
       (if rx_exec VerilatorLint_pattern row \<noteq> None then 1 else 0)"
  by (simp add: VerilatorLint_parseLine_def Let_def split: option.splits)

lemma VerilatorLint_example_match:
  "rx_exec VerilatorLint_pattern ''%Warning-WIDTH: top.v:10:5: message text'' =
     Some [(6, ''message text''), (5, ''5''), (4, ''10''), (3, ''top.v''), (2, ''WIDTH''),
           (1, ''Warning'')]"
  by code_simp

lemma VerilatorLint_example_fields:
  "parseInt ''10'' = 10" "parseInt ''5'' = 5" "trim ''message text'' = ''message text''"
  "split_lines ''%Warning-WIDTH: top.v:10:5: message text'' =
     [''%Warning-WIDTH: top.v:10:5: message text'']"
  by code_simp+

lemma VerilatorLint_example_no_match:
  "rx_exec VerilatorLint_pattern ''top.v:10:5: error: message text'' = None"
  "rx_exec VerilatorLint_pattern ''- V e r i l a t i o n   R e p o r t'' = None"
  by code_simp+

lemma no_grammar_example:
  "rx_exec VerilatorLint_pattern ''Segmentation fault (core dumped)'' = None"
  "rx_exec SlangLint_pattern ''Segmentation fault (core dumped)'' = None"
  "rx_exec VeribleLint_pattern ''Segmentation fault (core dumped)'' = None"
  by code_simp+

text \<open>
  Claim C7. \<^verbatim>\<open>VerilatorLint.parseLintOutput\<close> on the output line
  \<^verbatim>\<open>%Warning-WIDTH: top.v:10:5: message text\<close> yields exactly one diagnostic, the warning
  with file \<^verbatim>\<open>top.v\<close>, line 10, column 5, code \<^verbatim>\<open>WIDTH\<close> and message \<^verbatim>\<open>message text\<close>.
  A line that does not match the grammar of an adapter adds no diagnostic in that adapter,
  and the diagnostics of a Verilator result are as many as the lines that match.
\<close>

theorem VerilatorLint_parses_warning_line:
  "VerilatorLint_parseLintOutput
     \<lparr>success = True, stdout = Some ''%Warning-WIDTH: top.v:10:5: message text'',
      stderr = None, exitCode = Some (CodeNum 0), errors = None\<rparr> =
     \<lparr>success = True, stdout = Some ''%Warning-WIDTH: top.v:10:5: message text'',
      stderr = None, exitCode = None, errors = None,
      warnings = [\<lparr>filename = ''top.v'', line = 10, column = Some 5, code = ''WIDTH'',
                   message = ''message text'', severity = SevWarning\<rparr>],
      lintErrors = []\<rparr>
   \<and> (rx_exec VerilatorLint_pattern row = None \<longrightarrow> VerilatorLint_parseLine row acc = acc)
   \<and> (rx_exec SlangLint_pattern row = None \<longrightarrow> SlangLint_parseLine row acc = acc)
   \<and> (rx_exec VeribleLint_pattern row = None \<longrightarrow> VeribleLint_parseLine row acc = acc)
   \<and> length (warnings (VerilatorLint_parseLintOutput result)) +
       length (lintErrors (VerilatorLint_parseLintOutput result)) =
       length (filter (\<lambda>row. rx_exec VerilatorLint_pattern row \<noteq> None) (output_lines result))"
proof -
  have a: "VerilatorLint_parseLintOutput
     \<lparr>success = True, stdout = Some ''%Warning-WIDTH: top.v:10:5: message text'',
      stderr = None, exitCode = Some (CodeNum 0), errors = None\<rparr> =
     \<lparr>success = True, stdout = Some ''%Warning-WIDTH: top.v:10:5: message text'',
      stderr = None, exitCode = None, errors = None,
      warnings = [\<lparr>filename = ''top.v'', line = 10, column = Some 5, code = ''WIDTH'',
                   message = ''message text'', severity = SevWarning\<rparr>],
      lintErrors = []\<rparr>"
    by (simp add: VerilatorLint_parseLintOutput_def VerilatorLint_parseLine_def or_empty_def
        VerilatorLint_example_fields VerilatorLint_example_match group_def Let_def)
  have b: "length (fst (foldl (\<lambda>a row. VerilatorLint_parseLine row a) ([], []) rows)) +
           length (snd (foldl (\<lambda>a row. VerilatorLint_parseLine row a) ([], []) rows)) =
           length (filter (\<lambda>row. rx_exec VerilatorLint_pattern row \<noteq> None) rows)" for rows
    using foldl_counts
      [of "\<lambda>a. length (fst a) + length (snd a)" VerilatorLint_parseLine
          "\<lambda>row. rx_exec VerilatorLint_pattern row \<noteq> None" "([], [])" rows]
    by (simp add: VerilatorLint_parseLine_count)
  show ?thesis
    using a b [of "output_lines result"]
    by (simp add: VerilatorLint_parseLine_def SlangLint_parseLine_def VeribleLint_parseLine_def
        VerilatorLint_parseLintOutput_def output_lines_def Let_def)
qed

text \<open>An instance: a line in no adapter's grammar adds nothing to the empty arrays.\<close>

theorem VerilatorLint_parses_warning_line_witness:
  "rx_exec VerilatorLint_pattern ''Segmentation fault (core dumped)'' = None
   \<and> rx_exec SlangLint_pattern ''Segmentation fault (core dumped)'' = None
   \<and> rx_exec VeribleLint_pattern ''Segmentation fault (core dumped)'' = None
   \<and> VerilatorLint_parseLine ''Segmentation fault (core dumped)'' ([], []) = ([], [])
   \<and> SlangLint_parseLine ''Segmentation fault (core dumped)'' ([], []) = ([], [])
   \<and> VeribleLint_parseLine ''Segmentation fault (core dumped)'' ([], []) = ([], [])"
  using VerilatorLint_parses_warning_line
      [where row = "''Segmentation fault (core dumped)''" and acc = "([], [])"]
    no_grammar_example
  by simp

lemma parseLintOutput_success:
  assumes "\<And>row a. sorted_by_severity a \<Longrightarrow> sorted_by_severity (step row a)"
  shows "(length (snd (foldl (\<lambda>a row. step row a) ([], []) rows)) = 0) =
         (filter (\<lambda>d. severity d = SevError)
            (fst (foldl (\<lambda>a row. step row a) ([], []) rows) @
             snd (foldl (\<lambda>a row. step row a) ([], []) rows)) = [])"
proof -
  have "sorted_by_severity (foldl (\<lambda>a row. step row a) ([], []) rows)"
  proof (rule foldl_keeps [of sorted_by_severity step])
    show "sorted_by_severity (step row a)" if "sorted_by_severity a" for row a
      using that by (rule assms)
    show "sorted_by_severity ([], [])" by (simp add: sorted_by_severity_def)
  qed
  then show ?thesis by (simp only: sorted_by_severity_errors length_0_conv)
qed

text \<open>
  Claim C10. In each of the three lint adapters the \<^verbatim>\<open>success\<close> of the lint result is true
  exactly when no diagnostic of error severity was parsed from the output; the result does
  not depend on the \<^verbatim>\<open>success\<close>, \<^verbatim>\<open>exitCode\<close> or \<^verbatim>\<open>errors\<close> of the process result; and an
  output none of whose lines matches the grammar gives \<^verbatim>\<open>success: true\<close> with no warnings
  and no errors, also after a non-zero exit.
\<close>

theorem lint_success_counts_parsed_errors_only:
  "success (VerilatorLint_parseLintOutput r) =
     (error_diagnostics (VerilatorLint_parseLintOutput r) = [])
   \<and> success (SlangLint_parseLintOutput r) =
     (error_diagnostics (SlangLint_parseLintOutput r) = [])
   \<and> success (VeribleLint_parseLintOutput r) =
     (error_diagnostics (VeribleLint_parseLintOutput r) = [])
   \<and> VerilatorLint_parseLintOutput (r\<lparr>success := b, exitCode := x, errors := es\<rparr>) =
       VerilatorLint_parseLintOutput r
   \<and> SlangLint_parseLintOutput (r\<lparr>success := b, exitCode := x, errors := es\<rparr>) =
       SlangLint_parseLintOutput r
   \<and> VeribleLint_parseLintOutput (r\<lparr>success := b, exitCode := x, errors := es\<rparr>) =
       VeribleLint_parseLintOutput r
   \<and> ((\<forall>row \<in> set (output_lines rv). rx_exec VerilatorLint_pattern row = None) \<longrightarrow>
        success (VerilatorLint_parseLintOutput rv) \<and>
        warnings (VerilatorLint_parseLintOutput rv) = [] \<and>
        lintErrors (VerilatorLint_parseLintOutput rv) = [])
   \<and> ((\<forall>row \<in> set (output_lines rs). rx_exec SlangLint_pattern row = None) \<longrightarrow>
        success (SlangLint_parseLintOutput rs) \<and>
        warnings (SlangLint_parseLintOutput rs) = [] \<and>
        lintErrors (SlangLint_parseLintOutput rs) = [])
   \<and> ((\<forall>row \<in> set (output_lines rb). rx_exec VeribleLint_pattern row = None) \<longrightarrow>
        success (VeribleLint_parseLintOutput rb) \<and>
        warnings (VeribleLint_parseLintOutput rb) = [] \<and>
        lintErrors (VeribleLint_parseLintOutput rb) = [])"
proof -
  have a: "success (VerilatorLint_parseLintOutput r) =
     (error_diagnostics (VerilatorLint_parseLintOutput r) = [])"
    using parseLintOutput_success [of VerilatorLint_parseLine, OF VerilatorLint_parseLine_sorted]
    by (simp add: VerilatorLint_parseLintOutput_def error_diagnostics_def Let_def)
  have b: "success (SlangLint_parseLintOutput r) =
     (error_diagnostics (SlangLint_parseLintOutput r) = [])"
    using parseLintOutput_success [of SlangLint_parseLine, OF SlangLint_parseLine_sorted]
    by (simp add: SlangLint_parseLintOutput_def error_diagnostics_def Let_def)
  have c: "success (VeribleLint_parseLintOutput r) =
     (error_diagnostics (VeribleLint_parseLintOutput r) = [])"
    using parseLintOutput_success [of VeribleLint_parseLine, OF VeribleLint_parseLine_sorted]
    by (simp add: VeribleLint_parseLintOutput_def error_diagnostics_def Let_def)
  have d: "foldl (\<lambda>a row. VerilatorLint_parseLine row a) ([], []) (output_lines rv) = ([], [])"
    if "\<forall>row \<in> set (output_lines rv). rx_exec VerilatorLint_pattern row = None"
    by (rule foldl_skips) (simp add: that VerilatorLint_parseLine_def)
  have e: "foldl (\<lambda>a row. SlangLint_parseLine row a) ([], []) (output_lines rs) = ([], [])"
    if "\<forall>row \<in> set (output_lines rs). rx_exec SlangLint_pattern row = None"
    by (rule foldl_skips) (simp add: that SlangLint_parseLine_def)
  have f: "foldl (\<lambda>a row. VeribleLint_parseLine row a) ([], []) (output_lines rb) = ([], [])"
    if "\<forall>row \<in> set (output_lines rb). rx_exec VeribleLint_pattern row = None"
    by (rule foldl_skips) (simp add: that VeribleLint_parseLine_def)
  have g: "(\<forall>row \<in> set (output_lines rv). rx_exec VerilatorLint_pattern row = None) \<longrightarrow>
        success (VerilatorLint_parseLintOutput rv) \<and>
        warnings (VerilatorLint_parseLintOutput rv) = [] \<and>
        lintErrors (VerilatorLint_parseLintOutput rv) = []"
    using d by (simp add: VerilatorLint_parseLintOutput_def output_lines_def Let_def)
  have h: "(\<forall>row \<in> set (output_lines rs). rx_exec SlangLint_pattern row = None) \<longrightarrow>
        success (SlangLint_parseLintOutput rs) \<and>
        warnings (SlangLint_parseLintOutput rs) = [] \<and>
        lintErrors (SlangLint_parseLintOutput rs) = []"
    using e by (simp add: SlangLint_parseLintOutput_def output_lines_def Let_def)
  have i: "(\<forall>row \<in> set (output_lines rb). rx_exec VeribleLint_pattern row = None) \<longrightarrow>
        success (VeribleLint_parseLintOutput rb) \<and>
        warnings (VeribleLint_parseLintOutput rb) = [] \<and>
        lintErrors (VeribleLint_parseLintOutput rb) = []"
    using f by (simp add: VeribleLint_parseLintOutput_def output_lines_def Let_def)
  have j: "VerilatorLint_parseLintOutput (r\<lparr>success := b, exitCode := x, errors := es\<rparr>) =
       VerilatorLint_parseLintOutput r"
    "SlangLint_parseLintOutput (r\<lparr>success := b, exitCode := x, errors := es\<rparr>) =
       SlangLint_parseLintOutput r"
    "VeribleLint_parseLintOutput (r\<lparr>success := b, exitCode := x, errors := es\<rparr>) =
       VeribleLint_parseLintOutput r"
    by (simp_all add: VerilatorLint_parseLintOutput_def SlangLint_parseLintOutput_def
        VeribleLint_parseLintOutput_def)
  from a b c g h i j show ?thesis by blast
qed

lemma crashed_output_lines:
  "split_lines ''Segmentation fault (core dumped)'' = [''Segmentation fault (core dumped)'']"
  by code_simp

lemma exampleCrashedRun_lines:
  "output_lines (VerilatorLint_run exampleCrashedRun i) = [''Segmentation fault (core dumped)'']"
  "output_lines (SlangLint_run exampleCrashedRun i) = [''Segmentation fault (core dumped)'']"
  "output_lines (VeribleLint_run exampleCrashedRun i) = [''Segmentation fault (core dumped)'']"
  by (simp_all add: output_lines_def VerilatorLint_run_def SlangLint_run_def VeribleLint_run_def
      exampleCrashedRun_def or_empty_def Let_def crashed_output_lines)

text \<open>
  An instance: the lint process crashes with exit code 139 and prints a line in no grammar;
  each adapter reports \<^verbatim>\<open>success: true\<close> with no diagnostics.
\<close>

theorem lint_success_counts_parsed_errors_only_witness:
  "output_lines (VerilatorLint_run exampleCrashedRun
        \<lparr>input_files = [''top.v''], input_args = Some [''--lint-only'', ''--Wall'']\<rparr>) =
       [''Segmentation fault (core dumped)'']
   \<and> output_lines (SlangLint_run exampleCrashedRun
        \<lparr>input_files = [''top.v''], input_args = Some [''--lint'']\<rparr>) =
       [''Segmentation fault (core dumped)'']
   \<and> output_lines (VeribleLint_run exampleCrashedRun
        \<lparr>input_files = [''top.v''], input_args = Some []\<rparr>) =
       [''Segmentation fault (core dumped)'']
   \<and> rx_exec VerilatorLint_pattern ''Segmentation fault (core dumped)'' = None
   \<and> rx_exec SlangLint_pattern ''Segmentation fault (core dumped)'' = None
   \<and> rx_exec VeribleLint_pattern ''Segmentation fault (core dumped)'' = None
   \<and> exitCode (VerilatorLint_run exampleCrashedRun
        \<lparr>input_files = [''top.v''], input_args = Some [''--lint-only'', ''--Wall'']\<rparr>) =
       Some (CodeNum 139)
   \<and> \<not> success (VerilatorLint_run exampleCrashedRun
        \<lparr>input_files = [''top.v''], input_args = Some [''--lint-only'', ''--Wall'']\<rparr>)
   \<and> success (VerilatorLint_lint exampleCrashedRun [''top.v''])
   \<and> warnings (VerilatorLint_lint exampleCrashedRun [''top.v'']) = []
   \<and> lintErrors (VerilatorLint_lint exampleCrashedRun [''top.v'']) = []
   \<and> success (SlangLint_lint exampleCrashedRun [''top.v''])
   \<and> warnings (SlangLint_lint exampleCrashedRun [''top.v'']) = []
   \<and> lintErrors (SlangLint_lint exampleCrashedRun [''top.v'']) = []
   \<and> success (VeribleLint_lint exampleCrashedRun [''top.v''])
   \<and> warnings (VeribleLint_lint exampleCrashedRun [''top.v'']) = []
   \<and> lintErrors (VeribleLint_lint exampleCrashedRun [''top.v'']) = []"
proof -
  have x: "exitCode (VerilatorLint_run exampleCrashedRun
        \<lparr>input_files = [''top.v''], input_args = Some [''--lint-only'', ''--Wall'']\<rparr>) =
       Some (CodeNum 139)"
    and s: "\<not> success (VerilatorLint_run exampleCrashedRun
        \<lparr>input_files = [''top.v''], input_args = Some [''--lint-only'', ''--Wall'']\<rparr>)"
    by (simp_all add: VerilatorLint_run_def exampleCrashedRun_def code_or_1_def Let_def)
  have hv: "\<forall>row \<in> set (output_lines (VerilatorLint_run exampleCrashedRun
        \<lparr>input_files = [''top.v''], input_args = Some [''--lint-only'', ''--Wall'']\<rparr>)).
      rx_exec VerilatorLint_pattern row = None"
    and hs: "\<forall>row \<in> set (output_lines (SlangLint_run exampleCrashedRun
        \<lparr>input_files = [''top.v''], input_args = Some [''--lint'']\<rparr>)).
      rx_exec SlangLint_pattern row = None"
    and hb: "\<forall>row \<in> set (output_lines (VeribleLint_run exampleCrashedRun
        \<lparr>input_files = [''top.v''], input_args = Some []\<rparr>)).
      rx_exec VeribleLint_pattern row = None"
    by (simp_all add: exampleCrashedRun_lines no_grammar_example)
  have c: "success (VerilatorLint_lint exampleCrashedRun [''top.v''])
   \<and> warnings (VerilatorLint_lint exampleCrashedRun [''top.v'']) = []
   \<and> lintErrors (VerilatorLint_lint exampleCrashedRun [''top.v'']) = []
   \<and> success (SlangLint_lint exampleCrashedRun [''top.v''])
   \<and> warnings (SlangLint_lint exampleCrashedRun [''top.v'']) = []
   \<and> lintErrors (SlangLint_lint exampleCrashedRun [''top.v'']) = []
   \<and> success (VeribleLint_lint exampleCrashedRun [''top.v''])
   \<and> warnings (VeribleLint_lint exampleCrashedRun [''top.v'']) = []
   \<and> lintErrors (VeribleLint_lint exampleCrashedRun [''top.v'']) = []"
    unfolding VerilatorLint_lint_def SlangLint_lint_def VeribleLint_lint_def
    using hv hs hb lint_success_counts_parsed_errors_only
      [where rv = "VerilatorLint_run exampleCrashedRun
                \<lparr>input_files = [''top.v''], input_args = Some [''--lint-only'', ''--Wall'']\<rparr>"
         and rs = "SlangLint_run exampleCrashedRun
                \<lparr>input_files = [''top.v''], input_args = Some [''--lint'']\<rparr>"
         and rb = "VeribleLint_run exampleCrashedRun
                \<lparr>input_files = [''top.v''], input_args = Some []\<rparr>"
         and r = "VeribleLint_run exampleCrashedRun
                \<lparr>input_files = [''top.v''], input_args = Some []\<rparr>"
         and b = True and x = None and es = None]
    by blast
  from x s c show ?thesis
    by (simp add: exampleCrashedRun_lines no_grammar_example)
qed

end
